theory Spec2Isabelle
  imports Main "HOL-Library.Word" "HOL-Library.Sublist"
begin

section \<open>The kernel as the VLAN driver sees it\<close>

text \<open>
  The driver (package vlan) talks to the kernel through the netlink library and through
  helpers of package utils. Neither is part of the source files; the kernel is modelled
  as a record of the interface table, the address table and the routing table. Every
  call is appended to \<open>trace\<close> when it is issued, and its outcome can be forced by
  \<open>faults\<close>: the head of that list is consumed by the next call, \<open>Some msg\<close> making it
  fail with the message \<open>msg\<close> without touching the tables. With \<open>faults = []\<close> a call
  fails only for the reason the tables give (absent interface, duplicate address, ...).
  The model kernel performs exactly the change a call asks for; it does not add or drop
  routes on its own when addresses move.
\<close>

type_synonym errno = string

text \<open>
  A \<open>netlink.Addr\<close>: the IP bytes, the prefix length and the label; a \<open>netlink.Route\<close>:
  the five fields \<open>Init\<close> carries over to the bridge (link index, scope, destination,
  source, gateway) and three it does not (protocol, priority, table), which stand for the
  remaining attributes of a route.
\<close>

record addr =
  a_ip :: "nat list"
  a_plen :: nat
  a_label :: string

record route =
  r_LinkIndex :: int
  r_Scope :: nat
  r_Dst :: "(nat list \<times> nat) option"
  r_Src :: "nat list"
  r_Gw :: "nat list"
  r_Protocol :: nat
  r_Priority :: nat
  r_Table :: nat

text \<open>
  A netlink.Link: the attributes the driver reads. \<open>l_type\<close> is the string returned by
  \<open>Type()\<close> ("device", "vlan", "bridge", ...); \<open>l_VlanId\<close> is meaningful for a vlan
  link only. A link whose type is "vlan" is a \<open>*netlink.Vlan\<close>, as the library
  deserialises it.
\<close>

record link =
  l_Name :: string
  l_Index :: int
  l_MasterIndex :: int
  l_ParentIndex :: int
  l_HardwareAddr :: "nat list"
  l_type :: string
  l_VlanId :: int
  l_up :: bool

datatype call =
    CLinkByName string
  | CLinkByIndex int
  | CLinkList
  | CLinkAdd string int int
  | CLinkSetUp int
  | CLinkSetMaster int string
  | CAddrList int
  | CAddrDel int addr
  | CAddrAdd int addr
  | CRouteList int
  | CRouteAdd route
  | CCreateBridgeDevice string "nat list"
  | CUnSetArpIgnore string
  | CSetProxyArp string
  | CEnableNonlocalBind

record kernel =
  links :: "link list"
  addrs :: "(int \<times> addr) list"
  routes :: "route list"
  trace :: "call list"
  faults :: "errno option list"

definition syscall :: "call \<Rightarrow> (kernel \<Rightarrow> (errno + 'a) \<times> kernel) \<Rightarrow> kernel \<Rightarrow> (errno + 'a) \<times> kernel" where
  "syscall c body k =
     (let k1 = k\<lparr>trace := trace k @ [c]\<rparr> in
      case faults k1 of
        [] \<Rightarrow> body k1
      | None # fs \<Rightarrow> body (k1\<lparr>faults := fs\<rparr>)
      | Some e # fs \<Rightarrow> (Inl e, k1\<lparr>faults := fs\<rparr>))"

definition fresh_index :: "link list \<Rightarrow> int" where
  "fresh_index ls = 1 + fold max (map l_Index ls) 0"

definition same_addr :: "addr \<Rightarrow> addr \<Rightarrow> bool" where
  "same_addr a b = (a_ip a = a_ip b \<and> a_plen a = a_plen b)"

definition LinkByName :: "string \<Rightarrow> kernel \<Rightarrow> (errno + link) \<times> kernel" where
  "LinkByName name = syscall (CLinkByName name) (\<lambda>k.
     case find (\<lambda>l. l_Name l = name) (links k) of
       None \<Rightarrow> (Inl ''Link not found'', k)
     | Some l \<Rightarrow> (Inr l, k))"

definition LinkByIndex :: "int \<Rightarrow> kernel \<Rightarrow> (errno + link) \<times> kernel" where
  "LinkByIndex idx = syscall (CLinkByIndex idx) (\<lambda>k.
     case find (\<lambda>l. l_Index l = idx) (links k) of
       None \<Rightarrow> (Inl ''Link not found'', k)
     | Some l \<Rightarrow> (Inr l, k))"

definition LinkList :: "kernel \<Rightarrow> (errno + link list) \<times> kernel" where
  "LinkList = syscall CLinkList (\<lambda>k. (Inr (links k), k))"

text \<open>\<open>netlink.LinkAdd\<close> of a \<open>netlink.Vlan\<close> with the given name, parent index and tag.\<close>

definition new_vlan :: "string \<Rightarrow> int \<Rightarrow> int \<Rightarrow> link list \<Rightarrow> link" where
  "new_vlan name parent vid ls =
     \<lparr>l_Name = name, l_Index = fresh_index ls, l_MasterIndex = 0, l_ParentIndex = parent,
      l_HardwareAddr = [], l_type = ''vlan'', l_VlanId = vid, l_up = False\<rparr>"

definition LinkAdd :: "string \<Rightarrow> int \<Rightarrow> int \<Rightarrow> kernel \<Rightarrow> (errno + unit) \<times> kernel" where
  "LinkAdd name parent vid = syscall (CLinkAdd name parent vid) (\<lambda>k.
     if list_ex (\<lambda>l. l_Name l = name) (links k) then (Inl ''file exists'', k)
     else (Inr (), k\<lparr>links := links k @ [new_vlan name parent vid (links k)]\<rparr>))"

definition set_up :: "int \<Rightarrow> link \<Rightarrow> link" where
  "set_up idx x = (if l_Index x = idx then x\<lparr>l_up := True\<rparr> else x)"

definition LinkSetUp :: "link \<Rightarrow> kernel \<Rightarrow> (errno + unit) \<times> kernel" where
  "LinkSetUp l = syscall (CLinkSetUp (l_Index l)) (\<lambda>k.
     if list_ex (\<lambda>x. l_Index x = l_Index l) (links k)
     then (Inr (), k\<lparr>links := map (set_up (l_Index l)) (links k)\<rparr>)
     else (Inl ''no such device'', k))"

text \<open>
  \<open>netlink.LinkSetMaster(link, &netlink.Bridge{LinkAttrs{Name: master}})\<close>: the library
  resolves the master by its name and fails with "Device does not exist" when there is
  none.
\<close>

definition LinkSetMaster :: "link \<Rightarrow> string \<Rightarrow> kernel \<Rightarrow> (errno + unit) \<times> kernel" where
  "LinkSetMaster l master = syscall (CLinkSetMaster (l_Index l) master) (\<lambda>k.
     case find (\<lambda>x. l_Name x = master) (links k) of
       None \<Rightarrow> (Inl ''Device does not exist'', k)
     | Some m \<Rightarrow>
         if list_ex (\<lambda>x. l_Index x = l_Index l) (links k)
         then (Inr (), k\<lparr>links := map (\<lambda>x. if l_Index x = l_Index l
                                               then x\<lparr>l_MasterIndex := l_Index m\<rparr> else x) (links k)\<rparr>)
         else (Inl ''no such device'', k))"

definition AddrList :: "link \<Rightarrow> kernel \<Rightarrow> (errno + addr list) \<times> kernel" where
  "AddrList l = syscall (CAddrList (l_Index l)) (\<lambda>k.
     (Inr (map snd (filter (\<lambda>p. fst p = l_Index l) (addrs k))), k))"

definition AddrDel :: "link \<Rightarrow> addr \<Rightarrow> kernel \<Rightarrow> (errno + unit) \<times> kernel" where
  "AddrDel l a = syscall (CAddrDel (l_Index l) a) (\<lambda>k.
     if list_ex (\<lambda>p. fst p = l_Index l \<and> same_addr (snd p) a) (addrs k)
     then (Inr (), k\<lparr>addrs := filter (\<lambda>p. \<not> (fst p = l_Index l \<and> same_addr (snd p) a)) (addrs k)\<rparr>)
     else (Inl ''cannot assign requested address'', k))"

definition AddrAdd :: "link \<Rightarrow> addr \<Rightarrow> kernel \<Rightarrow> (errno + unit) \<times> kernel" where
  "AddrAdd l a = syscall (CAddrAdd (l_Index l) a) (\<lambda>k.
     if list_ex (\<lambda>p. fst p = l_Index l \<and> same_addr (snd p) a) (addrs k)
     then (Inl ''file exists'', k)
     else (Inr (), k\<lparr>addrs := addrs k @ [(l_Index l, a)]\<rparr>))"

definition RouteList :: "link \<Rightarrow> kernel \<Rightarrow> (errno + route list) \<times> kernel" where
  "RouteList l = syscall (CRouteList (l_Index l)) (\<lambda>k.
     (Inr (filter (\<lambda>r. r_LinkIndex r = l_Index l) (routes k)), k))"

definition RouteAdd :: "route \<Rightarrow> kernel \<Rightarrow> (errno + unit) \<times> kernel" where
  "RouteAdd r = syscall (CRouteAdd r) (\<lambda>k.
     if r \<in> set (routes k) then (Inl ''file exists'', k)
     else (Inr (), k\<lparr>routes := routes k @ [r]\<rparr>))"

text \<open>
  Modelled from the spec: \<open>utils.CreateBridgeDevice\<close>, \<open>utils.UnSetArpIgnore\<close>,
  \<open>utils.SetProxyArp\<close> and \<open>utils.EnableNonlocalBind\<close> are not among the source files.
  The first creates a bridge interface of the given name carrying the given hardware
  address (none given: left to the kernel, here the empty address); the sysctl helpers
  are recorded as calls.
\<close>

definition CreateBridgeDevice :: "string \<Rightarrow> nat list \<Rightarrow> kernel \<Rightarrow> (errno + unit) \<times> kernel" where
  "CreateBridgeDevice name mac = syscall (CCreateBridgeDevice name mac) (\<lambda>k.
     if list_ex (\<lambda>l. l_Name l = name) (links k) then (Inl ''file exists'', k)
     else (Inr (), k\<lparr>links := links k @
            [\<lparr>l_Name = name, l_Index = fresh_index (links k), l_MasterIndex = 0,
              l_ParentIndex = 0, l_HardwareAddr = mac, l_type = ''bridge'',
              l_VlanId = 0, l_up = False\<rparr>]\<rparr>))"

definition UnSetArpIgnore :: "string \<Rightarrow> kernel \<Rightarrow> (errno + unit) \<times> kernel" where
  "UnSetArpIgnore dev = syscall (CUnSetArpIgnore dev) (\<lambda>k. (Inr (), k))"

definition SetProxyArp :: "string \<Rightarrow> kernel \<Rightarrow> (errno + unit) \<times> kernel" where
  "SetProxyArp dev = syscall (CSetProxyArp dev) (\<lambda>k. (Inr (), k))"

definition EnableNonlocalBind :: "kernel \<Rightarrow> (errno + unit) \<times> kernel" where
  "EnableNonlocalBind = syscall CEnableNonlocalBind (\<lambda>k. (Inr (), k))"

text \<open>
  Modelled from the spec: \<open>network.FilterLoopbackAddr\<close> is not among the source files;
  it keeps the non-loopback addresses (an IPv4 address is loopback when its first byte
  is 127).
\<close>

definition IsLoopback :: "addr \<Rightarrow> bool" where
  "IsLoopback a = (case a_ip a of [] \<Rightarrow> False | b # _ \<Rightarrow> b = 127)"

definition FilterLoopbackAddr :: "addr list \<Rightarrow> addr list" where
  "FilterLoopbackAddr as = filter (\<lambda>a. \<not> IsLoopback a) as"

section \<open>The VLAN driver\<close>

text \<open>\<open>strings.Contains\<close> and the \<open>%d\<close> verb of \<open>fmt.Sprintf\<close> on an unsigned value.\<close>

fun contains :: "string \<Rightarrow> string \<Rightarrow> bool" where
  "contains [] sub = (sub = [])"
| "contains (c # s) sub = (prefix sub (c # s) \<or> contains s sub)"

fun decimal :: "nat \<Rightarrow> string" where
  "decimal n = (if n < 10 then [''0123456789'' ! n]
                else decimal (n div 10) @ [''0123456789'' ! (n mod 10)])"

declare decimal.simps [simp del]

text \<open>
  Errors of the driver: one constructor for each \<open>fmt.Errorf\<close> of the source, with the
  values it formats; \<open>Raw\<close> is an error of netlink or utils returned as it is.
\<close>

datatype error =
    Raw errno
  | ErrGettingDevice string errno
  | ErrGettingIPv4 errno
  | ErrGettingBri string errno
  | ErrNoAddress string
  | ErrSetUpBridge string errno
  | ErrListRoute string
  | ErrRemoveAddr string errno
  | ErrAddAddr string errno addr
  | ErrSetMaster string string errno
  | ErrAddVlanToBridge string string errno
  | ErrAddRoute route
  | ErrAddBridgeDevice string errno
  | ErrFailedToAdd string error
  | ErrFailedToGet string errno
  | ErrAddVlanDevice string errno
  | ErrSetUpVlan string errno
  | ErrNotVlan
  | ErrVlanTypeCase

text \<open>
  \<open>VlanDriver\<close> with the embedded \<open>NetConf\<close>. The mutex is left out: one call runs at a
  time in this model.
\<close>

record VlanDriver =
  Device :: string
  Switch :: string
  DisableDefaultBridge :: "bool option"
  DefaultBridgeName :: string
  BridgeNamePrefix :: string
  VlanNamePrefix :: string
  vlanParentIndex :: int
  DeviceIndex :: int

definition MacVlanMode :: "VlanDriver \<Rightarrow> bool" where
  "MacVlanMode d = (Switch d = ''macvlan'')"

definition IPVlanMode :: "VlanDriver \<Rightarrow> bool" where
  "IPVlanMode d = (Switch d = ''ipvlan'')"

definition PureMode :: "VlanDriver \<Rightarrow> bool" where
  "PureMode d = (Switch d = ''pure'')"

definition BridgeNameForVlan :: "VlanDriver \<Rightarrow> 16 word \<Rightarrow> string" where
  "BridgeNameForVlan d vlanId =
     (if vlanId = 0 \<and> PureMode d then ''''
      else let bridgeName = DefaultBridgeName d;
               bridgeName = (if vlanId \<noteq> 0 then BridgeNamePrefix d @ decimal (unat vlanId)
                             else bridgeName)
           in bridgeName)"

definition getOrCreateDevice ::
  "string \<Rightarrow> (string \<Rightarrow> kernel \<Rightarrow> error option \<times> kernel) \<Rightarrow> kernel \<Rightarrow> (error + link) \<times> kernel" where
  "getOrCreateDevice name createDevice k =
     (case LinkByName name k of
        (Inr device, k) \<Rightarrow> (Inr device, k)
      | (Inl err, k) \<Rightarrow>
          (case createDevice name k of
             (Some err, k) \<Rightarrow> (Inl (ErrFailedToAdd name err), k)
           | (None, k) \<Rightarrow>
               (case LinkByName name k of
                  (Inl err, k) \<Rightarrow> (Inl (ErrFailedToGet name err), k)
                | (Inr device, k) \<Rightarrow> (Inr device, k))))"

definition getOrCreateBridge :: "string \<Rightarrow> nat list \<Rightarrow> kernel \<Rightarrow> (error + link) \<times> kernel" where
  "getOrCreateBridge bridgeName mac =
     getOrCreateDevice bridgeName (\<lambda>name k.
       case CreateBridgeDevice bridgeName mac k of
         (Inl err, k) \<Rightarrow> (Some (ErrAddBridgeDevice bridgeName err), k)
       | (Inr _, k) \<Rightarrow> (None, k))"

text \<open>
  The scan of \<open>getVlanIfExist\<close>. The type assertion \<open>link.(*netlink.Vlan)\<close> holds for
  every link whose type is "vlan", so the branch returning the type-case error is kept
  but never taken.
\<close>

fun scanVlan :: "VlanDriver \<Rightarrow> 16 word \<Rightarrow> link list \<Rightarrow> error + link option" where
  "scanVlan d vlanId [] = Inr None"
| "scanVlan d vlanId (l # ls) =
     (if l_type l = ''vlan'' then
        (if \<not> (l_type l = ''vlan'') then Inl ErrVlanTypeCase
         else if l_VlanId l = uint vlanId \<and> l_ParentIndex l = vlanParentIndex d then Inr (Some l)
         else scanVlan d vlanId ls)
      else scanVlan d vlanId ls)"

definition getVlanIfExist :: "VlanDriver \<Rightarrow> 16 word \<Rightarrow> kernel \<Rightarrow> (error + link option) \<times> kernel" where
  "getVlanIfExist d vlanId k =
     (case LinkList k of
        (Inl err, k) \<Rightarrow> (Inl (Raw err), k)
      | (Inr ls, k) \<Rightarrow> (scanVlan d vlanId ls, k))"

definition getOrCreateVlanDevice ::
  "VlanDriver \<Rightarrow> 16 word \<Rightarrow> kernel \<Rightarrow> (error + link) \<times> VlanDriver \<times> kernel" where
  "getOrCreateVlanDevice d vlanId k =
     (case getVlanIfExist d vlanId k of
        (Inl err, k) \<Rightarrow> (Inl err, d, k)
      | (Inr (Some l), k) \<Rightarrow> (Inr l, d\<lparr>DeviceIndex := l_Index l\<rparr>, k)
      | (Inr None, k) \<Rightarrow>
          let vlanIfName = VlanNamePrefix d @ decimal (unat vlanId) in
          (case getOrCreateDevice vlanIfName (\<lambda>name k.
                  case LinkAdd vlanIfName (vlanParentIndex d) (uint vlanId) k of
                    (Inl err, k) \<Rightarrow> (Some (ErrAddVlanDevice vlanIfName err), k)
                  | (Inr _, k) \<Rightarrow> (None, k)) k of
             (Inl err, k) \<Rightarrow> (Inl err, d, k)
           | (Inr vlan, k) \<Rightarrow>
               (case LinkSetUp vlan k of
                  (Inl err, k) \<Rightarrow> (Inl (ErrSetUpVlan vlanIfName err), d, k)
                | (Inr _, k) \<Rightarrow> (Inr vlan, d\<lparr>DeviceIndex := l_Index vlan\<rparr>, k))))"

definition getVlanMaster :: "link \<Rightarrow> kernel \<Rightarrow> (error + link option) \<times> kernel" where
  "getVlanMaster l k =
     (if \<not> (l_type l = ''vlan'') then (Inl ErrNotVlan, k)
      else if l_MasterIndex l \<le> 0 then (Inr None, k)
      else (case LinkByIndex (l_MasterIndex l) k of
              (Inl err, k) \<Rightarrow> (Inl (Raw err), k)
            | (Inr m, k) \<Rightarrow> if l_type m = ''bridge'' then (Inr (Some m), k) else (Inr None, k)))"

definition CreateBridgeAndVlanDevice ::
  "VlanDriver \<Rightarrow> 16 word \<Rightarrow> kernel \<Rightarrow> (error + string) \<times> VlanDriver \<times> kernel" where
  "CreateBridgeAndVlanDevice d vlanId k =
     (if vlanId = 0 then (Inr (BridgeNameForVlan d vlanId), d, k)
      else case getOrCreateVlanDevice d vlanId k of
        (Inl err, d, k) \<Rightarrow> (Inl err, d, k)
      | (Inr vlan, d, k) \<Rightarrow>
          (case getVlanMaster vlan k of
             (Inl err, k) \<Rightarrow> (Inl err, d, k)
           | (Inr (Some master), k) \<Rightarrow> (Inr (l_Name master), d, k)
           | (Inr None, k) \<Rightarrow>
               let bridgeIfName = BridgeNamePrefix d @ decimal (unat vlanId) in
               (case getOrCreateBridge bridgeIfName [] k of
                  (Inl err, k) \<Rightarrow> (Inl err, d, k)
                | (Inr bridge, k) \<Rightarrow>
                    (case (if l_MasterIndex vlan \<noteq> l_Index bridge
                           then LinkSetMaster vlan bridgeIfName k else (Inr (), k)) of
                       (Inl err, k) \<Rightarrow>
                         (Inl (ErrAddVlanToBridge (l_Name vlan) bridgeIfName err), d, k)
                     | (Inr _, k) \<Rightarrow>
                         (case LinkSetUp bridge k of
                            (Inl err, k) \<Rightarrow> (Inl (ErrSetUpBridge bridgeIfName err), d, k)
                          | (Inr _, k) \<Rightarrow>
                              if PureMode d then
                                (case SetProxyArp bridgeIfName k of
                                   (Inl err, k) \<Rightarrow> (Inl (Raw err), d, k)
                                 | (Inr _, k) \<Rightarrow> (Inr bridgeIfName, d, k))
                              else (Inr bridgeIfName, d, k))))))"

definition MaybeCreateVlanDevice ::
  "VlanDriver \<Rightarrow> 16 word \<Rightarrow> kernel \<Rightarrow> error option \<times> VlanDriver \<times> kernel" where
  "MaybeCreateVlanDevice d vlanId k =
     (if vlanId = 0 then (None, d, k)
      else case getOrCreateVlanDevice d vlanId k of
        (Inl err, d, k) \<Rightarrow> (Some err, d, k)
      | (Inr _, d, k) \<Rightarrow> (None, d, k))"

subsection \<open>Init and the address migration\<close>

text \<open>
  The bridge branch of \<open>Init\<close> (the \<open>else\<close> block of lines 112 to 163) keeps its own
  variable \<open>err\<close> and registers deferred closures that read it when the function
  returns. The closure registered in the loop over \<open>filteredAddr\<close> refers to the loop
  variable \<open>i\<close> and to the slice, not to their values at registration: under the loop
  semantics of the Go versions this code was written for (one variable \<open>i\<close> for the
  whole loop, up to Go 1.21) every such closure reads the value \<open>i\<close> has when the
  function returns. \<open>locals\<close> holds the variables the closures share with the body;
  \<open>v_deferred\<close> is the stack of registered closures, the last registered first.
\<close>

datatype deferred = ReAddRoutes | ReAddAddr

record locals =
  v_err :: "errno option"
  v_i :: nat
  v_filteredAddr :: "addr list"
  v_rs :: "route list"
  v_deferred :: "deferred list"

text \<open>The first closure (lines 124 to 130): \<open>_ = netlink.RouteAdd(&rs[i])\<close> for every route.\<close>

fun readd_routes :: "route list \<Rightarrow> kernel \<Rightarrow> kernel" where
  "readd_routes [] k = k"
| "readd_routes (r # rs) k = readd_routes rs (snd (RouteAdd r k))"

text \<open>Running the deferred closures when \<open>Init\<close> returns; their own errors are dropped.\<close>

fun run_deferred :: "link \<Rightarrow> locals \<Rightarrow> deferred list \<Rightarrow> kernel \<Rightarrow> kernel" where
  "run_deferred device L [] k = k"
| "run_deferred device L (ReAddAddr # ds) k =
     run_deferred device L ds
       (if v_err L \<noteq> None then snd (AddrAdd device (v_filteredAddr L ! v_i L) k) else k)"
| "run_deferred device L (ReAddRoutes # ds) k =
     run_deferred device L ds
       (if v_err L \<noteq> None then readd_routes (v_rs L) k else k)"

text \<open>
  The loop of lines 131 to 149, from iteration \<open>n\<close> on. The first component of the
  result is the error of a \<open>return\<close> inside the loop, \<open>None\<close> when the loop ran to its
  end.
\<close>

function addr_loop ::
  "VlanDriver \<Rightarrow> link \<Rightarrow> link \<Rightarrow> nat \<Rightarrow> locals \<Rightarrow> kernel \<Rightarrow> error option \<times> locals \<times> kernel" where
  "addr_loop d device bri n L k =
     (if n < length (v_filteredAddr L) then
        let L = L\<lparr>v_i := n\<rparr> in
        case AddrDel device (v_filteredAddr L ! n) k of
          (Inl e, k) \<Rightarrow> (Some (ErrRemoveAddr (Device d) e), L\<lparr>v_err := Some e\<rparr>, k)
        | (Inr _, k) \<Rightarrow>
            let L = L\<lparr>v_err := None, v_deferred := ReAddAddr # v_deferred L\<rparr>;
                L = L\<lparr>v_filteredAddr :=
                        (v_filteredAddr L)[n := (v_filteredAddr L ! n)\<lparr>a_label := []\<rparr>]\<rparr>
            in (case AddrAdd bri (v_filteredAddr L ! n) k of
                  (Inl e, k) \<Rightarrow>
                    if \<not> contains e ''file exists''
                    then (Some (ErrAddAddr (DefaultBridgeName d) e (v_filteredAddr L ! n)),
                          L\<lparr>v_err := Some e\<rparr>, k)
                    else addr_loop d device bri (Suc n) (L\<lparr>v_err := None\<rparr>) k
                | (Inr _, k) \<Rightarrow> addr_loop d device bri (Suc n) (L\<lparr>v_err := None\<rparr>) k)
      else (None, L, k))"
  by pat_completeness auto
termination
  by (relation "measure (\<lambda>(d, device, bri, n, L, k). length (v_filteredAddr L) - n)") auto

declare addr_loop.simps [simp del]

text \<open>The loop of lines 153 to 162; only five fields of a route are carried over.\<close>

definition newRoute :: "link \<Rightarrow> route \<Rightarrow> route" where
  "newRoute bri r =
     \<lparr>r_LinkIndex = l_Index bri, r_Scope = r_Scope r, r_Dst = r_Dst r, r_Src = r_Src r,
      r_Gw = r_Gw r, r_Protocol = 0, r_Priority = 0, r_Table = 0\<rparr>"

fun route_loop :: "link \<Rightarrow> route list \<Rightarrow> locals \<Rightarrow> kernel \<Rightarrow> error option \<times> locals \<times> kernel" where
  "route_loop bri [] L k = (None, L, k)"
| "route_loop bri (r # rs) L k =
     (case RouteAdd (newRoute bri r) k of
        (Inl e, k) \<Rightarrow>
          if \<not> contains e ''file exists''
          then (Some (ErrAddRoute (newRoute bri r)), L\<lparr>v_err := Some e\<rparr>, k)
          else route_loop bri rs (L\<lparr>v_err := None\<rparr>) k
      | (Inr _, k) \<Rightarrow> route_loop bri rs (L\<lparr>v_err := None\<rparr>) k)"

text \<open>Lines 131 to 163: what runs between the first \<open>defer\<close> and the return.\<close>

definition migrate_body ::
  "VlanDriver \<Rightarrow> link \<Rightarrow> link \<Rightarrow> locals \<Rightarrow> kernel \<Rightarrow> error option \<times> locals \<times> kernel" where
  "migrate_body d device bri L k =
     (case addr_loop d device bri 0 L k of
        (Some e, L, k) \<Rightarrow> (Some e, L, k)
      | (None, L, k) \<Rightarrow>
          (case LinkSetMaster device (DefaultBridgeName d) k of
             (Inl e, k) \<Rightarrow>
               (Some (ErrSetMaster (Device d) (DefaultBridgeName d) e), L\<lparr>v_err := Some e\<rparr>, k)
           | (Inr _, k) \<Rightarrow> route_loop bri (v_rs L) (L\<lparr>v_err := None\<rparr>) k))"

text \<open>Lines 113 to 163, with the deferred closures run at every return after line 130.\<close>

definition migrate :: "VlanDriver \<Rightarrow> link \<Rightarrow> addr list \<Rightarrow> kernel \<Rightarrow> error option \<times> kernel" where
  "migrate d device filteredAddr k =
     (case getOrCreateBridge (DefaultBridgeName d) (l_HardwareAddr device) k of
        (Inl err, k) \<Rightarrow> (Some err, k)
      | (Inr bri, k) \<Rightarrow>
          (case LinkSetUp bri k of
             (Inl err, k) \<Rightarrow> (Some (ErrSetUpBridge (DefaultBridgeName d) err), k)
           | (Inr _, k) \<Rightarrow>
               (case RouteList device k of
                  (Inl err, k) \<Rightarrow> (Some (ErrListRoute (l_Name device)), k)
                | (Inr rs, k) \<Rightarrow>
                    (case migrate_body d device bri
                            \<lparr>v_err = None, v_i = 0, v_filteredAddr = filteredAddr, v_rs = rs,
                             v_deferred = [ReAddRoutes]\<rparr> k of
                       (ret, L, k) \<Rightarrow> (ret, run_deferred device L (v_deferred L) k)))))"

text \<open>Lines 84 to 95.\<close>

definition init_pure :: "VlanDriver \<Rightarrow> kernel \<Rightarrow> error option \<times> kernel" where
  "init_pure d k =
     (case UnSetArpIgnore ''all'' k of
        (Inl err, k) \<Rightarrow> (Some (Raw err), k)
      | (Inr _, k) \<Rightarrow>
          (case UnSetArpIgnore (Device d) k of
             (Inl err, k) \<Rightarrow> (Some (Raw err), k)
           | (Inr _, k) \<Rightarrow>
               (case SetProxyArp (Device d) k of
                  (Inl err, k) \<Rightarrow> (Some (Raw err), k)
                | (Inr _, k) \<Rightarrow>
                    (case EnableNonlocalBind k of
                       (Inl err, k) \<Rightarrow> (Some (Raw err), k)
                     | (Inr _, k) \<Rightarrow> (None, k)))))"

text \<open>Lines 96 to 164.\<close>

definition init_bridge :: "VlanDriver \<Rightarrow> link \<Rightarrow> kernel \<Rightarrow> error option \<times> kernel" where
  "init_bridge d device k =
     (if DisableDefaultBridge d = Some True then (None, k)
      else case AddrList device k of
        (Inl err, k) \<Rightarrow> (Some (ErrGettingIPv4 err), k)
      | (Inr v4Addr, k) \<Rightarrow>
          let filteredAddr = FilterLoopbackAddr v4Addr in
          if length filteredAddr = 0 then
            (case LinkByName (DefaultBridgeName d) k of
               (Inl err, k) \<Rightarrow> (Some (ErrGettingBri (DefaultBridgeName d) err), k)
             | (Inr bri, k) \<Rightarrow>
                 if l_Index bri \<noteq> l_MasterIndex device then (Some (ErrNoAddress (Device d)), k)
                 else (None, k))
          else migrate d device filteredAddr k)"

definition Init :: "VlanDriver \<Rightarrow> kernel \<Rightarrow> error option \<times> VlanDriver \<times> kernel" where
  "Init d k =
     (case LinkByName (Device d) k of
        (Inl err, k) \<Rightarrow> (Some (ErrGettingDevice (Device d) err), d, k)
      | (Inr device, k) \<Rightarrow>
          let d = d\<lparr>DeviceIndex := l_Index device\<rparr>;
              d = d\<lparr>vlanParentIndex := l_Index device\<rparr>;
              d = (if l_type device = ''vlan'' then d\<lparr>vlanParentIndex := l_ParentIndex device\<rparr>
                   else d)
          in if MacVlanMode d \<or> IPVlanMode d then (None, d, k)
             else if PureMode d then (case init_pure d k of (r, k) \<Rightarrow> (r, d, k))
             else (case init_bridge d device k of (r, k) \<Rightarrow> (r, d, k)))"

section \<open>The request dispatcher\<close>

text \<open>
  Package galaxy (server.go). The port files of package k8s and the installed mappings
  of package portmapping are the state the dispatcher changes; \<open>io_faults\<close> forces the
  outcome of the next calls to them, as \<open>faults\<close> does for the kernel.
\<close>

record Port =
  HostPort :: nat
  ContainerPort :: nat
  Protocol :: string
  PodIP :: string

record IPConfig =
  ip_IP :: "nat list"
  ip_Mask :: "nat list"

record Result =
  IP4 :: "IPConfig option"

record PodRequest =
  Command :: string
  ContainerID :: string
  Netns :: string
  Ports :: string
  StdinData :: string

datatype ioerr = NotExist | IOError string

datatype iocall =
    CSavePort string string
  | CConsumePort string
  | CSetupPortMapping string "Port list"
  | CCleanPortMapping string "Port list"

record world =
  saved :: "string \<rightharpoonup> string"
  installed :: "Port list"
  io_trace :: "iocall list"
  io_faults :: "ioerr option list"

datatype gerror =
    GRaw string
  | ErrSavePorts ioerr
  | ErrNoIPv4
  | ErrInvalidIPv4 IPConfig
  | ErrSetupPortMapping "Port list" ioerr
  | ErrReadPorts ioerr
  | ErrDeletePortMapping "Port list" ioerr
  | ErrUnknownCommand string

text \<open>
  The collaborators that are not among the source files and that the spec treats as
  black boxes are parameters: the port-spec parser, the JSON encoder of a result, the
  helper that disables IPv6 and the two backend delegates. \<open>Galaxy\<close> carries the
  configuration \<open>cmdAdd\<close> and \<open>cmdDel\<close> read, the flag \<open>-master\<close> included.
\<close>

record collab =
  ParsePorts :: "string \<Rightarrow> string + Port list"
  Marshal :: "Result \<Rightarrow> string + string"
  disableIPv6 :: "string \<Rightarrow> string option"
  flannel_CmdAdd :: "PodRequest \<Rightarrow> string + Result option"
  flannel_CmdDel :: "PodRequest \<Rightarrow> string option"
  remote_CmdAdd :: "PodRequest \<Rightarrow> string \<Rightarrow> string \<Rightarrow> string \<Rightarrow> string + Result option"
  remote_CmdDel :: "PodRequest \<Rightarrow> string \<Rightarrow> string option"

record Galaxy =
  flannelConf :: string
  netConf :: string
  flagMaster :: string

definition iocall :: "iocall \<Rightarrow> (world \<Rightarrow> (ioerr + 'a) \<times> world) \<Rightarrow> world \<Rightarrow> (ioerr + 'a) \<times> world" where
  "iocall c body w =
     (let w1 = w\<lparr>io_trace := io_trace w @ [c]\<rparr> in
      case io_faults w1 of
        [] \<Rightarrow> body w1
      | None # fs \<Rightarrow> body (w1\<lparr>io_faults := fs\<rparr>)
      | Some e # fs \<Rightarrow> (Inl e, w1\<lparr>io_faults := fs\<rparr>))"

text \<open>
  Modelled from the spec: \<open>k8s.SavePort\<close> and \<open>k8s.ConsumePort\<close> are not among the
  source files; the spec gives the store as \<open>save(containerID, spec)\<close> and
  \<open>consume(containerID) -> spec | not-found\<close>. Consuming removes the entry and returns
  the parsed ports.
\<close>

definition SavePort :: "string \<Rightarrow> string \<Rightarrow> world \<Rightarrow> (ioerr + unit) \<times> world" where
  "SavePort containerID portStr = iocall (CSavePort containerID portStr) (\<lambda>w.
     (Inr (), w\<lparr>saved := (saved w)(containerID \<mapsto> portStr)\<rparr>))"

definition ConsumePort :: "collab \<Rightarrow> string \<Rightarrow> world \<Rightarrow> (ioerr + Port list) \<times> world" where
  "ConsumePort C containerID = iocall (CConsumePort containerID) (\<lambda>w.
     case saved w containerID of
       None \<Rightarrow> (Inl NotExist, w)
     | Some portStr \<Rightarrow>
         (case ParsePorts C portStr of
            Inl e \<Rightarrow> Inl (IOError e)
          | Inr ports \<Rightarrow> Inr ports,
          w\<lparr>saved := (saved w)(containerID := None)\<rparr>))"

text \<open>
  Modelled from the spec: \<open>portmapping.SetupPortMapping\<close> and
  \<open>portmapping.CleanPortMapping\<close> are not among the source files; they install and
  remove the given mappings.
\<close>

definition SetupPortMapping :: "string \<Rightarrow> Port list \<Rightarrow> world \<Rightarrow> (ioerr + unit) \<times> world" where
  "SetupPortMapping dev ports = iocall (CSetupPortMapping dev ports) (\<lambda>w.
     (Inr (), w\<lparr>installed := installed w @ ports\<rparr>))"

definition CleanPortMapping :: "string \<Rightarrow> Port list \<Rightarrow> world \<Rightarrow> (ioerr + unit) \<times> world" where
  "CleanPortMapping dev ports = iocall (CCleanPortMapping dev ports) (\<lambda>w.
     (Inr (), w\<lparr>installed := filter (\<lambda>p. p \<notin> set ports) (installed w)\<rparr>))"

text \<open>
  \<open>net.IP.To4\<close> and \<open>net.IP.String\<close> on the four bytes it returns. The parsed ports
  are pointers (\<open>p.PodIP = ...\<close> in the range loop of \<open>setupPortMapping\<close> changes the
  ports that are installed afterwards), hence the \<open>map\<close> there.
\<close>

definition To4 :: "nat list \<Rightarrow> nat list option" where
  "To4 ip =
     (if length ip = 4 then Some ip
      else if length ip = 16 \<and> take 10 ip = replicate 10 0 \<and> ip ! 10 = 255 \<and> ip ! 11 = 255
           then Some (drop 12 ip)
      else None)"

definition IP_String :: "nat list \<Rightarrow> string" where
  "IP_String ip4 =
     decimal (ip4 ! 0) @ ''.'' @ decimal (ip4 ! 1) @ ''.'' @ decimal (ip4 ! 2) @ ''.'' @ decimal (ip4 ! 3)"

definition COMMAND_ADD :: string where
  "COMMAND_ADD = ''ADD''"

definition COMMAND_DEL :: string where
  "COMMAND_DEL = ''DEL''"

definition setupPortMapping ::
  "collab \<Rightarrow> string \<Rightarrow> string \<Rightarrow> Result \<Rightarrow> world \<Rightarrow> gerror option \<times> world" where
  "setupPortMapping C portStr containerID result w =
     (case ParsePorts C portStr of
        Inl err \<Rightarrow> (Some (GRaw err), w)
      | Inr ports \<Rightarrow>
          (case SavePort containerID portStr w of
             (Inl err, w) \<Rightarrow> (Some (ErrSavePorts err), w)
           | (Inr _, w) \<Rightarrow>
               (case IP4 result of
                  None \<Rightarrow> (Some ErrNoIPv4, w)
                | Some ipc \<Rightarrow>
                    (case To4 (ip_IP ipc) of
                       None \<Rightarrow> (Some (ErrInvalidIPv4 ipc), w)
                     | Some ip4 \<Rightarrow>
                         let ports = map (\<lambda>p. p\<lparr>PodIP := IP_String ip4\<rparr>) ports in
                         if length ports \<noteq> 0 then
                           (case SetupPortMapping ''cni0'' ports w of
                              (Inl err, w) \<Rightarrow> (Some (ErrSetupPortMapping ports err), w)
                            | (Inr _, w) \<Rightarrow> (None, w))
                         else (None, w)))))"

definition cleanupPortMapping :: "collab \<Rightarrow> string \<Rightarrow> world \<Rightarrow> gerror option \<times> world" where
  "cleanupPortMapping C containerID w =
     (case ConsumePort C containerID w of
        (Inl err, w) \<Rightarrow> if err = NotExist then (None, w) else (Some (ErrReadPorts err), w)
      | (Inr ports, w) \<Rightarrow>
          if length ports \<noteq> 0 then
            (case CleanPortMapping ''cni0'' ports w of
               (Inl err, w) \<Rightarrow> (Some (ErrDeletePortMapping ports err), w)
             | (Inr _, w) \<Rightarrow> (None, w))
          else (None, w))"

text \<open>
  \<open>cmdAdd\<close> and \<open>cmdDel\<close>: the error of \<open>disableIPv6\<close> is logged only; \<open>flags.GetNodeIP()\<close>
  is the parameter \<open>nodeIP\<close>.
\<close>

definition cmdAdd :: "collab \<Rightarrow> Galaxy \<Rightarrow> string \<Rightarrow> PodRequest \<Rightarrow> string + Result option" where
  "cmdAdd C g nodeIP req =
     (let logged = disableIPv6 C (Netns req) in
      if flagMaster g = [] then flannel_CmdAdd C (req\<lparr>StdinData := flannelConf g\<rparr>)
      else remote_CmdAdd C req (flagMaster g) nodeIP (netConf g))"

definition cmdDel :: "collab \<Rightarrow> Galaxy \<Rightarrow> PodRequest \<Rightarrow> string option" where
  "cmdDel C g req =
     (if flagMaster g = [] then flannel_CmdDel C (req\<lparr>StdinData := flannelConf g\<rparr>)
      else remote_CmdDel C req (netConf g))"

text \<open>
  \<open>requestFunc\<close> returns the response body and the error. The error of \<open>json.Marshal\<close> is
  overwritten by the result of \<open>setupPortMapping\<close>; the body is empty when no branch
  assigns it.
\<close>

definition requestFunc ::
  "collab \<Rightarrow> Galaxy \<Rightarrow> string \<Rightarrow> PodRequest \<Rightarrow> world \<Rightarrow> (string \<times> gerror option) \<times> world" where
  "requestFunc C g nodeIP req w =
     (if Command req = COMMAND_ADD then
        (case cmdAdd C g nodeIP req of
           Inl err1 \<Rightarrow> (([], Some (GRaw err1)), w)
         | Inr None \<Rightarrow> (([], None), w)
         | Inr (Some result) \<Rightarrow>
             let data = (case Marshal C result of Inl e \<Rightarrow> [] | Inr s \<Rightarrow> s) in
             (case setupPortMapping C (Ports req) (ContainerID req) result w of
                (err, w) \<Rightarrow> ((data, err), w)))
      else if Command req = COMMAND_DEL then
        (case cmdDel C g req of
           Some err \<Rightarrow> (([], Some (GRaw err)), w)
         | None \<Rightarrow> (case cleanupPortMapping C (ContainerID req) w of (err, w) \<Rightarrow> (([], err), w)))
      else (([], Some (ErrUnknownCommand (Command req))), w))"

section \<open>Example data\<close>

text \<open>
  A host with the device eth1 (index 2) carrying two addresses and a default route, a
  driver configured with the defaults of \<open>LoadConf\<close>, and a dispatcher whose port-spec
  parser yields one mapping for every non-empty spec.
\<close>

definition ex_driver :: VlanDriver where
  "ex_driver = \<lparr>Device = ''eth1'', Switch = [], DisableDefaultBridge = None,
     DefaultBridgeName = ''docker'', BridgeNamePrefix = ''docker'', VlanNamePrefix = ''vlan'',
     vlanParentIndex = 0, DeviceIndex = 0\<rparr>"

definition ex_eth1 :: link where
  "ex_eth1 = \<lparr>l_Name = ''eth1'', l_Index = 2, l_MasterIndex = 0, l_ParentIndex = 0,
     l_HardwareAddr = [], l_type = ''device'', l_VlanId = 0, l_up = True\<rparr>"

definition ex_addr0 :: addr where
  "ex_addr0 = \<lparr>a_ip = [10, 0, 0, 5], a_plen = 24, a_label = ''eth1''\<rparr>"

definition ex_addr1 :: addr where
  "ex_addr1 = \<lparr>a_ip = [10, 0, 0, 6], a_plen = 24, a_label = ''eth1''\<rparr>"

definition ex_route :: route where
  "ex_route = \<lparr>r_LinkIndex = 2, r_Scope = 0, r_Dst = None, r_Src = [], r_Gw = [10, 0, 0, 1],
     r_Protocol = 3, r_Priority = 0, r_Table = 254\<rparr>"

definition ex_kernel :: "errno option list \<Rightarrow> kernel" where
  "ex_kernel fs = \<lparr>links = [ex_eth1], addrs = [(2, ex_addr0), (2, ex_addr1)],
     routes = [ex_route], trace = [], faults = fs\<rparr>"

text \<open>A vlan interface named vlan7 with tag 7 on another parent (index 5), and one on eth1
  enslaved to the bridge docker7.\<close>

definition ex_vlan7_other :: link where
  "ex_vlan7_other = \<lparr>l_Name = ''vlan7'', l_Index = 6, l_MasterIndex = 0, l_ParentIndex = 5,
     l_HardwareAddr = [], l_type = ''vlan'', l_VlanId = 7, l_up = True\<rparr>"

definition ex_vlan7 :: link where
  "ex_vlan7 = \<lparr>l_Name = ''vlan7'', l_Index = 3, l_MasterIndex = 4, l_ParentIndex = 2,
     l_HardwareAddr = [], l_type = ''vlan'', l_VlanId = 7, l_up = True\<rparr>"

definition ex_docker7 :: link where
  "ex_docker7 = \<lparr>l_Name = ''docker7'', l_Index = 4, l_MasterIndex = 0, l_ParentIndex = 0,
     l_HardwareAddr = [], l_type = ''bridge'', l_VlanId = 0, l_up = True\<rparr>"

text \<open>A vlan interface named vlan7 with tag 7 on another parent, down and enslaved to the
  bridge docker7.\<close>

definition ex_vlan7_adopted :: link where
  "ex_vlan7_adopted = \<lparr>l_Name = ''vlan7'', l_Index = 6, l_MasterIndex = 4, l_ParentIndex = 5,
     l_HardwareAddr = [], l_type = ''vlan'', l_VlanId = 7, l_up = False\<rparr>"

text \<open>The bridge docker as \<open>CreateBridgeDevice\<close> adds it to the example host.\<close>

definition ex_docker :: link where
  "ex_docker = \<lparr>l_Name = ''docker'', l_Index = 3, l_MasterIndex = 0, l_ParentIndex = 0,
     l_HardwareAddr = [], l_type = ''bridge'', l_VlanId = 0, l_up = False\<rparr>"

definition ex_links_kernel :: "link list \<Rightarrow> kernel" where
  "ex_links_kernel ls = \<lparr>links = ls, addrs = [], routes = [], trace = [], faults = []\<rparr>"

definition ex_port :: Port where
  "ex_port = \<lparr>HostPort = 8080, ContainerPort = 80, Protocol = ''tcp'', PodIP = []\<rparr>"

definition ex_collab :: "(string + Result option) \<Rightarrow> collab" where
  "ex_collab added =
     \<lparr>ParsePorts = (\<lambda>s. if s = [] then Inr [] else Inr [ex_port]),
      Marshal = (\<lambda>r. Inr ''{}''),
      disableIPv6 = (\<lambda>p. None),
      flannel_CmdAdd = (\<lambda>r. added),
      flannel_CmdDel = (\<lambda>r. None),
      remote_CmdAdd = (\<lambda>r m n c. added),
      remote_CmdDel = (\<lambda>r c. None)\<rparr>"

definition ex_galaxy :: Galaxy where
  "ex_galaxy = \<lparr>flannelConf = ''{}'', netConf = ''{}'', flagMaster = []\<rparr>"

definition ex_request :: "string \<Rightarrow> string \<Rightarrow> PodRequest" where
  "ex_request cmd ports = \<lparr>Command = cmd, ContainerID = ''c1'', Netns = ''/proc/7/ns/net'',
     Ports = ports, StdinData = []\<rparr>"

definition ex_world :: world where
  "ex_world = \<lparr>saved = Map.empty, installed = [], io_trace = [], io_faults = []\<rparr>"

text \<open>
  The test of the discovery scan (lines 299 and 303): a link of type vlan whose tag and
  parent index are the requested tag and the driver's parent index.
\<close>

definition vlan_matches :: "VlanDriver \<Rightarrow> 16 word \<Rightarrow> link \<Rightarrow> bool" where
  "vlan_matches d vlanId l =
     (l_type l = ''vlan'' \<and> l_VlanId l = uint vlanId \<and> l_ParentIndex l = vlanParentIndex d)"

text \<open>
  The calls of a completed run of the address loop over the given addresses: each address
  is deleted from the device and added, its label cleared, to the bridge.
\<close>

definition moves :: "link \<Rightarrow> link \<Rightarrow> addr list \<Rightarrow> call list" where
  "moves device bri as =
     concat (map (\<lambda>a. [CAddrDel (l_Index device) a,
                        CAddrAdd (l_Index bri) (a\<lparr>a_label := []\<rparr>)]) as)"

text \<open>The forced outcome of the next call to the port store, if any.\<close>

definition next_io_fault :: "world \<Rightarrow> ioerr option" where
  "next_io_fault w = (case io_faults w of Some e # fs \<Rightarrow> Some e | _ \<Rightarrow> None)"

section \<open>Basic facts about the calls\<close>

lemma syscall_cases:
  "syscall c body k =
     (case faults k of
        [] \<Rightarrow> body (k\<lparr>trace := trace k @ [c]\<rparr>)
      | None # fs \<Rightarrow> body (k\<lparr>trace := trace k @ [c], faults := fs\<rparr>)
      | Some e # fs \<Rightarrow> (Inl e, k\<lparr>trace := trace k @ [c], faults := fs\<rparr>))"
  by (simp add: syscall_def Let_def split: list.splits option.splits)

lemma iocall_cases:
  "iocall c body w =
     (case io_faults w of
        [] \<Rightarrow> body (w\<lparr>io_trace := io_trace w @ [c]\<rparr>)
      | None # fs \<Rightarrow> body (w\<lparr>io_trace := io_trace w @ [c], io_faults := fs\<rparr>)
      | Some e # fs \<Rightarrow> (Inl e, w\<lparr>io_trace := io_trace w @ [c], io_faults := fs\<rparr>))"
  by (simp add: iocall_def Let_def split: list.splits option.splits)

lemmas ex_server_defs = ex_collab_def ex_galaxy_def ex_request_def ex_world_def ex_port_def
  COMMAND_ADD_def COMMAND_DEL_def

lemmas ex_kernel_defs = ex_driver_def ex_eth1_def ex_addr0_def ex_addr1_def ex_route_def
  ex_kernel_def ex_vlan7_def ex_vlan7_other_def ex_docker7_def ex_links_kernel_def ex_vlan7_adopted_def

lemma COMMAND_DEL_neq_ADD: "COMMAND_DEL \<noteq> COMMAND_ADD"
  by (simp add: COMMAND_DEL_def COMMAND_ADD_def)

section \<open>Mode resolution and VLAN tag 0\<close>

text \<open>
  C6. \<open>BridgeNameForVlan\<close> returns the empty string for tag 0 in pure mode, the default
  bridge name for tag 0 in any other mode, and the bridge name prefix followed by the
  decimal tag for every non-zero tag, whatever the mode.
\<close>

theorem BridgeNameForVlan_cases:
  "(vlanId = 0 \<and> PureMode d \<longrightarrow> BridgeNameForVlan d vlanId = []) \<and>
   (vlanId = 0 \<and> \<not> PureMode d \<longrightarrow> BridgeNameForVlan d vlanId = DefaultBridgeName d) \<and>
   (vlanId \<noteq> 0 \<longrightarrow> BridgeNameForVlan d vlanId = BridgeNamePrefix d @ decimal (unat vlanId))"
  by (simp add: BridgeNameForVlan_def)

theorem BridgeNameForVlan_cases_witness:
  "PureMode (ex_driver\<lparr>Switch := ''pure''\<rparr>) \<and> \<not> PureMode ex_driver \<and> (7 :: 16 word) \<noteq> 0 \<and>
   BridgeNameForVlan (ex_driver\<lparr>Switch := ''pure''\<rparr>) 0 = [] \<and>
   BridgeNameForVlan ex_driver 0 = ''docker'' \<and>
   BridgeNameForVlan ex_driver 7 = ''docker7'' \<and>
   BridgeNameForVlan (ex_driver\<lparr>Switch := ''pure''\<rparr>) 7 = ''docker7''"
  using BridgeNameForVlan_cases [of 0 "ex_driver\<lparr>Switch := ''pure''\<rparr>"]
    BridgeNameForVlan_cases [of 0 ex_driver]
    BridgeNameForVlan_cases [of 7 ex_driver]
    BridgeNameForVlan_cases [of 7 "ex_driver\<lparr>Switch := ''pure''\<rparr>"]
  by (simp add: PureMode_def ex_driver_def decimal.simps)

text \<open>
  C7. With tag 0 neither \<open>CreateBridgeAndVlanDevice\<close> nor \<open>MaybeCreateVlanDevice\<close> issues
  any call: the first returns \<open>BridgeNameForVlan d 0\<close>, the second returns no error, and
  both leave the driver and the kernel (its trace included) as they were.
\<close>

theorem vlan_tag_zero_no_creation:
  "CreateBridgeAndVlanDevice d 0 k = (Inr (BridgeNameForVlan d 0), d, k) \<and>
   MaybeCreateVlanDevice d 0 k = (None, d, k)"
  by (simp add: CreateBridgeAndVlanDevice_def MaybeCreateVlanDevice_def)

theorem vlan_tag_zero_no_creation_witness:
  "CreateBridgeAndVlanDevice ex_driver 0 (ex_kernel []) = (Inr ''docker'', ex_driver, ex_kernel []) \<and>
   MaybeCreateVlanDevice ex_driver 0 (ex_kernel []) = (None, ex_driver, ex_kernel [])"
  using vlan_tag_zero_no_creation [of ex_driver "ex_kernel []"]
  by (simp add: BridgeNameForVlan_def PureMode_def ex_driver_def)

section \<open>Parent resolution\<close>

text \<open>
  C9. When the interface table has no interface of the configured name, \<open>Init\<close> fails
  with the error naming the device, after the one lookup, and leaves the driver and the
  tables unchanged. When the lookup succeeds, the driver \<open>Init\<close> leaves behind, on every
  path, has the interface's index as \<open>DeviceIndex\<close>, and as \<open>vlanParentIndex\<close> the
  interface's parent index if the interface is of type vlan, the interface's own index
  otherwise.
\<close>

theorem Init_parent_resolution:
  "(find (\<lambda>l. l_Name l = Device d) (links k) = None \<longrightarrow>
      (\<exists>e k1. Init d k = (Some (ErrGettingDevice (Device d) e), d, k1) \<and>
               links k1 = links k \<and> addrs k1 = addrs k \<and> routes k1 = routes k \<and>
               trace k1 = trace k @ [CLinkByName (Device d)])) \<and>
   (LinkByName (Device d) k = (Inr device, k1) \<longrightarrow>
      fst (snd (Init d k)) =
        d\<lparr>DeviceIndex := l_Index device,
          vlanParentIndex := (if l_type device = ''vlan'' then l_ParentIndex device
                              else l_Index device)\<rparr>)"
  by (auto simp add: Init_def LinkByName_def syscall_cases Let_def
      split: list.splits option.splits prod.splits)

theorem Init_parent_resolution_witness:
  "find (\<lambda>l. l_Name l = Device (ex_driver\<lparr>Device := ''eth9''\<rparr>)) (links (ex_kernel [])) = None \<and>
   fst (Init (ex_driver\<lparr>Device := ''eth9''\<rparr>) (ex_kernel [])) =
     Some (ErrGettingDevice ''eth9'' ''Link not found'') \<and>
   LinkByName (Device (ex_driver\<lparr>Device := ''vlan7''\<rparr>))
       (ex_links_kernel [ex_eth1, ex_vlan7]) =
     (Inr ex_vlan7,
      \<lparr>links = [ex_eth1, ex_vlan7], addrs = [], routes = [], trace = [CLinkByName ''vlan7''],
       faults = []\<rparr>) \<and>
   DeviceIndex (fst (snd (Init (ex_driver\<lparr>Device := ''vlan7''\<rparr>)
       (ex_links_kernel [ex_eth1, ex_vlan7])))) = 3 \<and>
   vlanParentIndex (fst (snd (Init (ex_driver\<lparr>Device := ''vlan7''\<rparr>)
       (ex_links_kernel [ex_eth1, ex_vlan7])))) = 2"
proof -
  have a: "find (\<lambda>l. l_Name l = Device (ex_driver\<lparr>Device := ''eth9''\<rparr>)) (links (ex_kernel [])) = None"
    by (simp add: ex_kernel_defs)
  have b: "LinkByName (Device (ex_driver\<lparr>Device := ''vlan7''\<rparr>))
       (ex_links_kernel [ex_eth1, ex_vlan7]) =
     (Inr ex_vlan7,
      \<lparr>links = [ex_eth1, ex_vlan7], addrs = [], routes = [], trace = [CLinkByName ''vlan7''],
       faults = []\<rparr>)"
    by (simp add: LinkByName_def syscall_cases ex_kernel_defs)
  from a Init_parent_resolution [of "ex_driver\<lparr>Device := ''eth9''\<rparr>" "ex_kernel []"]
  obtain e k1 where
    "Init (ex_driver\<lparr>Device := ''eth9''\<rparr>) (ex_kernel []) =
       (Some (ErrGettingDevice (Device (ex_driver\<lparr>Device := ''eth9''\<rparr>)) e),
        ex_driver\<lparr>Device := ''eth9''\<rparr>, k1)"
    by blast
  moreover have "fst (Init (ex_driver\<lparr>Device := ''eth9''\<rparr>) (ex_kernel [])) =
      Some (ErrGettingDevice ''eth9'' ''Link not found'')"
    by (simp add: Init_def LinkByName_def syscall_cases ex_kernel_defs)
  moreover note a b
    Init_parent_resolution [of "ex_driver\<lparr>Device := ''vlan7''\<rparr>"
      "(ex_links_kernel [ex_eth1, ex_vlan7])"
      ex_vlan7
      "\<lparr>links = [ex_eth1, ex_vlan7], addrs = [], routes = [], trace = [CLinkByName ''vlan7''],
        faults = []\<rparr>"]
  ultimately show ?thesis
    by (simp add: ex_vlan7_def)
qed

section \<open>Port mappings across ADD and DEL\<close>

text \<open>
  C10. When the backend delegate of an ADD returns no error and a nil result, the
  dispatcher returns success with an empty body and leaves the port store and the
  installed mappings untouched (no call is issued), whatever the port spec.
\<close>

theorem ADD_nil_result_no_port_mapping:
  "Command req = COMMAND_ADD \<Longrightarrow> cmdAdd C g nodeIP req = Inr None \<Longrightarrow>
   requestFunc C g nodeIP req w = (([], None), w)"
  by (simp add: requestFunc_def)

theorem ADD_nil_result_no_port_mapping_witness:
  "Command (ex_request ''ADD'' ''8080:80/tcp'') = COMMAND_ADD \<and>
   cmdAdd (ex_collab (Inr None)) ex_galaxy [] (ex_request ''ADD'' ''8080:80/tcp'') = Inr None \<and>
   requestFunc (ex_collab (Inr None)) ex_galaxy [] (ex_request ''ADD'' ''8080:80/tcp'') ex_world =
     (([], None), ex_world)"
proof -
  have a: "Command (ex_request ''ADD'' ''8080:80/tcp'') = COMMAND_ADD"
    by (simp add: ex_server_defs)
  have b: "cmdAdd (ex_collab (Inr None)) ex_galaxy [] (ex_request ''ADD'' ''8080:80/tcp'') = Inr None"
    by (simp add: cmdAdd_def ex_server_defs)
  from a b ADD_nil_result_no_port_mapping [OF a b] show ?thesis
    by simp
qed

lemma cleanupPortMapping_absent:
  "io_faults w = [] \<Longrightarrow> saved w cid = None \<Longrightarrow>
   cleanupPortMapping C cid w = (None, w\<lparr>io_trace := io_trace w @ [CConsumePort cid]\<rparr>)"
  by (simp add: cleanupPortMapping_def ConsumePort_def iocall_cases)

lemma cleanupPortMapping_consumes:
  "io_faults w = [] \<Longrightarrow> cleanupPortMapping C cid w = (r, w1) \<Longrightarrow>
   io_faults w1 = [] \<and> saved w1 cid = None"
  by (auto simp add: cleanupPortMapping_def ConsumePort_def CleanPortMapping_def iocall_cases
      split: option.splits sum.splits if_splits)

text \<open>
  C8. With the backend teardown succeeding and no failure forced on the port store, a
  DEL whose container has no persisted entry returns success; a DEL leaves no entry for
  its container behind, and a second DEL for the same container returns success.
\<close>

theorem DEL_twice_succeeds:
  assumes "Command req = COMMAND_DEL" and "cmdDel C g req = None" and "io_faults w = []"
  shows "(saved w (ContainerID req) = None \<longrightarrow> fst (requestFunc C g nodeIP req w) = ([], None)) \<and>
         saved (snd (requestFunc C g nodeIP req w)) (ContainerID req) = None \<and>
         fst (requestFunc C g nodeIP req (snd (requestFunc C g nodeIP req w))) = ([], None)"
proof -
  obtain r w1 where c: "cleanupPortMapping C (ContainerID req) w = (r, w1)"
    by (cases "cleanupPortMapping C (ContainerID req) w")
  from cleanupPortMapping_consumes [OF assms(3) c]
  have w1: "io_faults w1 = []" "saved w1 (ContainerID req) = None"
    by auto
  have first: "requestFunc C g nodeIP req w = (([], r), w1)"
    using assms c COMMAND_DEL_neq_ADD by (simp add: requestFunc_def)
  have second: "fst (requestFunc C g nodeIP req w1) = ([], None)"
    using assms(1,2) COMMAND_DEL_neq_ADD cleanupPortMapping_absent [OF w1]
    by (simp add: requestFunc_def)
  have "saved w (ContainerID req) = None \<longrightarrow> r = None"
    using c cleanupPortMapping_absent [OF assms(3)] by auto
  with first second w1 show ?thesis
    by simp
qed

theorem DEL_twice_succeeds_witness:
  "Command (ex_request ''DEL'' []) = COMMAND_DEL \<and>
   cmdDel (ex_collab (Inr None)) ex_galaxy (ex_request ''DEL'' []) = None \<and>
   io_faults (ex_world\<lparr>saved := [''c1'' \<mapsto> ''8080:80/tcp'']\<rparr>) = [] \<and>
   fst (requestFunc (ex_collab (Inr None)) ex_galaxy [] (ex_request ''DEL'' [])
          (ex_world\<lparr>saved := [''c1'' \<mapsto> ''8080:80/tcp'']\<rparr>)) = ([], None) \<and>
   saved (snd (requestFunc (ex_collab (Inr None)) ex_galaxy [] (ex_request ''DEL'' [])
          (ex_world\<lparr>saved := [''c1'' \<mapsto> ''8080:80/tcp'']\<rparr>))) ''c1'' = None \<and>
   fst (requestFunc (ex_collab (Inr None)) ex_galaxy [] (ex_request ''DEL'' [])
          (snd (requestFunc (ex_collab (Inr None)) ex_galaxy [] (ex_request ''DEL'' [])
             (ex_world\<lparr>saved := [''c1'' \<mapsto> ''8080:80/tcp'']\<rparr>)))) = ([], None)"
proof -
  have a: "Command (ex_request ''DEL'' []) = COMMAND_DEL"
    by (simp add: ex_server_defs)
  have b: "cmdDel (ex_collab (Inr None)) ex_galaxy (ex_request ''DEL'' []) = None"
    by (simp add: cmdDel_def ex_server_defs)
  have c: "io_faults (ex_world\<lparr>saved := [''c1'' \<mapsto> ''8080:80/tcp'']\<rparr>) = []"
    by (simp add: ex_world_def)
  have d: "fst (requestFunc (ex_collab (Inr None)) ex_galaxy [] (ex_request ''DEL'' [])
          (ex_world\<lparr>saved := [''c1'' \<mapsto> ''8080:80/tcp'']\<rparr>)) = ([], None)"
    by (simp add: requestFunc_def cmdDel_def cleanupPortMapping_def ConsumePort_def
        CleanPortMapping_def iocall_cases ex_server_defs)
  have e: "ContainerID (ex_request ''DEL'' []) = ''c1''"
    by (simp add: ex_request_def)
  from a b c d DEL_twice_succeeds [OF a b c, of "[]"] show ?thesis
    unfolding e by simp
qed

text \<open>
  C2, as the code has it. After an ADD the port store differs from the store before it
  exactly when the delegate returned a result, the port spec parsed and the save was not
  made to fail; then the request's port spec, empty or not, is stored under the
  container ID. Neither the emptiness of the spec nor the IPv4 address of the result is
  consulted before the save.
\<close>

theorem ADD_persists_port_spec:
  "Command req = COMMAND_ADD \<Longrightarrow>
   saved (snd (requestFunc C g nodeIP req w)) =
     (case (cmdAdd C g nodeIP req, ParsePorts C (Ports req), next_io_fault w) of
        (Inr (Some result), Inr ports, None) \<Rightarrow> (saved w)(ContainerID req \<mapsto> Ports req)
      | _ \<Rightarrow> saved w)"
  by (auto simp add: requestFunc_def setupPortMapping_def SavePort_def SetupPortMapping_def
      iocall_cases next_io_fault_def Let_def
      split: sum.splits option.splits list.splits prod.splits)

theorem ADD_persists_port_spec_witness:
  "Command (ex_request ''ADD'' ''8080:80/tcp'') = COMMAND_ADD \<and>
   saved (snd (requestFunc
       (ex_collab (Inr (Some \<lparr>IP4 = Some \<lparr>ip_IP = [10, 1, 2, 3], ip_Mask = [255, 255, 255, 0]\<rparr>\<rparr>)))
       ex_galaxy [] (ex_request ''ADD'' ''8080:80/tcp'') ex_world)) ''c1'' = Some ''8080:80/tcp''"
proof -
  have a: "Command (ex_request ''ADD'' ''8080:80/tcp'') = COMMAND_ADD"
    by (simp add: ex_server_defs)
  from a ADD_persists_port_spec [OF a, of
      "ex_collab (Inr (Some \<lparr>IP4 = Some \<lparr>ip_IP = [10, 1, 2, 3], ip_Mask = [255, 255, 255, 0]\<rparr>\<rparr>))"
      ex_galaxy "[]" ex_world]
  show ?thesis
    by (simp add: cmdAdd_def next_io_fault_def ex_server_defs)
qed

text \<open>
  C2 as stated fails: an ADD whose result carries no IPv4 address returns the error and
  still leaves the port spec persisted, and a successful ADD with an empty port spec
  persists the empty spec.
\<close>

theorem ADD_persists_without_IPv4_counterexample:
  "snd (fst (requestFunc (ex_collab (Inr (Some \<lparr>IP4 = None\<rparr>))) ex_galaxy []
          (ex_request ''ADD'' ''8080:80/tcp'') ex_world)) = Some ErrNoIPv4 \<and>
   saved (snd (requestFunc (ex_collab (Inr (Some \<lparr>IP4 = None\<rparr>))) ex_galaxy []
          (ex_request ''ADD'' ''8080:80/tcp'') ex_world)) ''c1'' = Some ''8080:80/tcp'' \<and>
   fst (requestFunc
          (ex_collab (Inr (Some \<lparr>IP4 = Some \<lparr>ip_IP = [10, 1, 2, 3], ip_Mask = [255, 255, 255, 0]\<rparr>\<rparr>)))
          ex_galaxy [] (ex_request ''ADD'' []) ex_world) = (''{}'', None) \<and>
   saved (snd (requestFunc
          (ex_collab (Inr (Some \<lparr>IP4 = Some \<lparr>ip_IP = [10, 1, 2, 3], ip_Mask = [255, 255, 255, 0]\<rparr>\<rparr>)))
          ex_galaxy [] (ex_request ''ADD'' []) ex_world)) ''c1'' = Some []"
  by (simp add: requestFunc_def cmdAdd_def setupPortMapping_def SavePort_def iocall_cases
      ex_server_defs To4_def)

section \<open>What the kernel calls do\<close>

lemma AddrDel_trace: "AddrDel l a k = (r, k') \<Longrightarrow> trace k' = trace k @ [CAddrDel (l_Index l) a]"
  by (auto simp: AddrDel_def syscall_cases split: list.splits option.splits if_splits)

lemma AddrAdd_trace: "AddrAdd l a k = (r, k') \<Longrightarrow> trace k' = trace k @ [CAddrAdd (l_Index l) a]"
  by (auto simp: AddrAdd_def syscall_cases split: list.splits option.splits if_splits)

lemma RouteAdd_trace: "RouteAdd x k = (r, k') \<Longrightarrow> trace k' = trace k @ [CRouteAdd x]"
  by (auto simp: RouteAdd_def syscall_cases split: list.splits option.splits if_splits)

lemma LinkSetMaster_trace:
  "LinkSetMaster l m k = (r, k') \<Longrightarrow> trace k' = trace k @ [CLinkSetMaster (l_Index l) m]"
  by (auto simp: LinkSetMaster_def syscall_cases split: list.splits option.splits if_splits)

lemma LinkSetUp_trace: "LinkSetUp l k = (r, k') \<Longrightarrow> trace k' = trace k @ [CLinkSetUp (l_Index l)]"
  by (auto simp: LinkSetUp_def syscall_cases split: list.splits option.splits if_splits)

lemma LinkSetUp_routes: "LinkSetUp l k = (r, k') \<Longrightarrow> routes k' = routes k"
  by (auto simp: LinkSetUp_def syscall_cases split: list.splits option.splits if_splits)

lemma LinkSetUp_Inr:
  "LinkSetUp l k = (Inr u, k') \<Longrightarrow>
   list_ex (\<lambda>x. l_Index x = l_Index l) (links k) \<and> links k' = map (set_up (l_Index l)) (links k)"
  by (auto simp: LinkSetUp_def syscall_cases split: list.splits option.splits if_splits)

lemma RouteList_trace: "RouteList l k = (r, k') \<Longrightarrow> trace k' = trace k @ [CRouteList (l_Index l)]"
  by (auto simp: RouteList_def syscall_cases split: list.splits option.splits if_splits)

lemma RouteList_Inr:
  "RouteList l k = (Inr rs, k') \<Longrightarrow> rs = filter (\<lambda>r. r_LinkIndex r = l_Index l) (routes k)"
  by (auto simp: RouteList_def syscall_cases split: list.splits option.splits if_splits)

lemma LinkByName_trace: "LinkByName n k = (r, k') \<Longrightarrow> trace k' = trace k @ [CLinkByName n]"
  by (auto simp: LinkByName_def syscall_cases split: list.splits option.splits if_splits)

lemma LinkByName_links: "LinkByName n k = (r, k') \<Longrightarrow> links k' = links k"
  by (auto simp: LinkByName_def syscall_cases split: list.splits option.splits)

lemma LinkByName_Inr:
  "LinkByName n k = (Inr l, k') \<Longrightarrow>
   find (\<lambda>x. l_Name x = n) (links k) = Some l \<and> links k' = links k"
  by (auto simp: LinkByName_def syscall_cases split: list.splits option.splits)

lemma LinkAdd_Inr:
  "LinkAdd n p v k = (Inr u, k') \<Longrightarrow>
   \<not> list_ex (\<lambda>l. l_Name l = n) (links k) \<and> links k' = links k @ [new_vlan n p v (links k)]"
  by (auto simp: LinkAdd_def syscall_cases split: list.splits option.splits if_splits)

lemma CreateBridgeDevice_trace:
  "CreateBridgeDevice n m k = (r, k') \<Longrightarrow> trace k' = trace k @ [CCreateBridgeDevice n m]"
  by (auto simp: CreateBridgeDevice_def syscall_cases split: list.splits option.splits if_splits)

lemma LinkByName_routes: "LinkByName n k = (r, k') \<Longrightarrow> routes k' = routes k"
  by (auto simp: LinkByName_def syscall_cases split: list.splits option.splits)

lemma CreateBridgeDevice_routes: "CreateBridgeDevice n m k = (r, k') \<Longrightarrow> routes k' = routes k"
  by (auto simp: CreateBridgeDevice_def syscall_cases split: list.splits option.splits if_splits)

lemma getOrCreateBridge_unfold:
  "getOrCreateBridge name mac k =
     (case LinkByName name k of
        (Inr device, k1) \<Rightarrow> (Inr device, k1)
      | (Inl err, k1) \<Rightarrow>
          (case CreateBridgeDevice name mac k1 of
             (Inl e2, k2) \<Rightarrow> (Inl (ErrFailedToAdd name (ErrAddBridgeDevice name e2)), k2)
           | (Inr u, k2) \<Rightarrow>
               (case LinkByName name k2 of
                  (Inl e3, k3) \<Rightarrow> (Inl (ErrFailedToGet name e3), k3)
                | (Inr device, k3) \<Rightarrow> (Inr device, k3))))"
  by (simp add: getOrCreateBridge_def getOrCreateDevice_def split: prod.splits sum.splits)

lemma getOrCreateBridge_trace:
  assumes "getOrCreateBridge name mac k = (Inr bri, k')"
  shows "trace k' = trace k @ [CLinkByName name] \<or>
   trace k' = trace k @ [CLinkByName name, CCreateBridgeDevice name mac, CLinkByName name]"
proof -
  obtain r1 k1 where a: "LinkByName name k = (r1, k1)" by (cases "LinkByName name k")
  obtain r2 k2 where b: "CreateBridgeDevice name mac k1 = (r2, k2)" by (cases "CreateBridgeDevice name mac k1")
  obtain r3 k3 where c: "LinkByName name k2 = (r3, k3)" by (cases "LinkByName name k2")
  from assms a b c have "k' = k1 \<or> k' = k3"
    by (simp add: getOrCreateBridge_unfold split: sum.splits)
  with LinkByName_trace[OF a] CreateBridgeDevice_trace[OF b] LinkByName_trace[OF c] show ?thesis
    by auto
qed

lemma getOrCreateBridge_routes:
  assumes "getOrCreateBridge name mac k = (r, k')"
  shows "routes k' = routes k"
proof -
  obtain r1 k1 where a: "LinkByName name k = (r1, k1)" by (cases "LinkByName name k")
  obtain r2 k2 where b: "CreateBridgeDevice name mac k1 = (r2, k2)" by (cases "CreateBridgeDevice name mac k1")
  obtain r3 k3 where c: "LinkByName name k2 = (r3, k3)" by (cases "LinkByName name k2")
  from assms a b c have "k' = k1 \<or> k' = k2 \<or> k' = k3"
    by (simp add: getOrCreateBridge_unfold split: sum.splits)
  with LinkByName_routes[OF a] CreateBridgeDevice_routes[OF b] LinkByName_routes[OF c] show ?thesis
    by auto
qed

lemma find_append_new: "\<not> list_ex P xs \<Longrightarrow> find P (xs @ [y]) = Some v \<Longrightarrow> v = y \<and> P y"
  by (induction xs) (auto split: if_splits)

lemma find_append_None: "find P xs = None \<Longrightarrow> find P (xs @ ys) = find P ys"
  by (induction xs) (auto split: if_splits)

lemma find_map_inv: "(\<And>x. P (f x) = P x) \<Longrightarrow> find P (map f xs) = map_option f (find P xs)"
  by (induction xs) auto

lemma set_up_idem: "set_up i (set_up i x) = set_up i x"
  by (simp add: set_up_def)

lemma set_up_Index: "l_Index (set_up i x) = l_Index x"
  by (simp add: set_up_def)

lemma set_up_Name: "l_Name (set_up i x) = l_Name x"
  by (simp add: set_up_def)

lemma set_up_matches: "vlan_matches d t (set_up i x) = vlan_matches d t x"
  by (simp add: set_up_def vlan_matches_def)

lemma find_matches_set_up:
  "find (vlan_matches d t) (map (set_up i) ls) = map_option (set_up i) (find (vlan_matches d t) ls)"
  by (rule find_map_inv) (rule set_up_matches)

lemma list_ex_set_up:
  "list_ex (\<lambda>x. l_Index x = i) (map (set_up j) ls) = list_ex (\<lambda>x. l_Index x = i) ls"
  by (induction ls) (auto simp: set_up_def)

lemma vlan_matches_DeviceIndex [simp]:
  "vlan_matches (d\<lparr>DeviceIndex := x\<rparr>) t = vlan_matches d t"
  by (rule ext) (simp add: vlan_matches_def)

section \<open>VLAN sub-interface discovery and creation\<close>

lemma scanVlan_find: "scanVlan d t ls = Inr (find (vlan_matches d t) ls)"
  by (induction ls) (auto simp: vlan_matches_def)

lemma getVlanIfExist_Inr:
  "getVlanIfExist d t k = (Inr r, k') \<Longrightarrow>
   r = find (vlan_matches d t) (links k) \<and> links k' = links k"
  by (auto simp: getVlanIfExist_def LinkList_def syscall_cases scanVlan_find
      split: list.splits option.splits)

lemma getVlanIfExist_no_fault:
  "faults k = [] \<Longrightarrow>
   getVlanIfExist d t k =
     (Inr (find (vlan_matches d t) (links k)), k\<lparr>trace := trace k @ [CLinkList]\<rparr>)"
  by (simp add: getVlanIfExist_def LinkList_def syscall_cases scanVlan_find)

lemma getOrCreate_vlan_Inr:
  assumes "getOrCreateDevice name (\<lambda>nm k.
                  case LinkAdd name parent vid k of
                    (Inl err, k) \<Rightarrow> (Some (ErrAddVlanDevice name err), k)
                  | (Inr _, k) \<Rightarrow> (None, k)) k = (Inr v, k')"
  shows "(find (\<lambda>x. l_Name x = name) (links k) = Some v \<and> links k' = links k) \<or>
         (v = new_vlan name parent vid (links k) \<and> links k' = links k @ [v])"
proof -
  obtain r1 k1 where l1: "LinkByName name k = (r1, k1)"
    by (cases "LinkByName name k")
  show ?thesis
  proof (cases r1)
    case (Inr l)
    with assms l1 have "v = l" "k' = k1"
      by (simp_all add: getOrCreateDevice_def)
    with LinkByName_Inr [OF l1 [unfolded Inr]] show ?thesis
      by simp
  next
    case (Inl e)
    obtain r2 k2 where la: "LinkAdd name parent vid k1 = (r2, k2)"
      by (cases "LinkAdd name parent vid k1")
    from assms l1 Inl la obtain u where r2: "r2 = Inr u"
      by (cases r2) (auto simp add: getOrCreateDevice_def)
    from assms l1 Inl la r2 have l2: "LinkByName name k2 = (Inr v, k')"
      by (auto simp add: getOrCreateDevice_def split: prod.splits sum.splits)
    from LinkAdd_Inr [OF la [unfolded r2]] LinkByName_links [OF l1]
    have a: "\<not> list_ex (\<lambda>l. l_Name l = name) (links k)"
      "links k2 = links k @ [new_vlan name parent vid (links k)]"
      by simp_all
    from LinkByName_Inr [OF l2] a find_append_new [OF a(1)] show ?thesis
      by auto
  qed
qed

text \<open>
  C4, as the code has it. After a first call that returned an interface, a second call
  with the same tag on the kernel the first one left (no failure forced) returns an
  interface of the same index, leaves the interface table as it is and issues no creating
  call. When the interface the first call returned is a vlan link with the requested tag
  on the driver's parent (it was discovered or just created), the second call is the
  discovery scan alone and the scan finds it. Otherwise (the first call adopted, by its
  name, an interface that does not match tag and parent) the second call's scan finds
  nothing and the interface is adopted by name and brought up again.
\<close>

theorem getOrCreateVlanDevice_twice:
  assumes first: "getOrCreateVlanDevice d vlanId k = (Inr v, d1, k1)" and nf: "faults k1 = []"
  shows "\<exists>v2 k2. getOrCreateVlanDevice d1 vlanId k1 = (Inr v2, d1, k2) \<and>
           l_Index v2 = l_Index v \<and> DeviceIndex d1 = l_Index v \<and> links k2 = links k1 \<and>
           trace k2 = trace k1 @
             (if vlan_matches d vlanId v then [CLinkList]
              else [CLinkList, CLinkByName (VlanNamePrefix d @ decimal (unat vlanId)),
                    CLinkSetUp (l_Index v)]) \<and>
           (if vlan_matches d vlanId v
            then getVlanIfExist d1 vlanId k1 = (Inr (Some v2), k2)
            else fst (getVlanIfExist d1 vlanId k1) = Inr None)"
proof -
  let ?name = "VlanNamePrefix d @ decimal (unat vlanId)"
  obtain r ka where scan: "getVlanIfExist d vlanId k = (r, ka)"
    by (cases "getVlanIfExist d vlanId k")
  from first scan obtain o1 where r: "r = Inr o1"
    by (cases r) (auto simp: getOrCreateVlanDevice_def)
  from getVlanIfExist_Inr [OF scan [unfolded r]]
  have o1: "o1 = find (vlan_matches d vlanId) (links k)" and lka: "links ka = links k"
    by simp_all
  show ?thesis
  proof (cases o1)
    case (Some l)
    with first scan r have e: "v = l" "d1 = d\<lparr>DeviceIndex := l_Index l\<rparr>" "k1 = ka"
      by (auto simp: getOrCreateVlanDevice_def)
    from Some o1 lka e have f: "find (vlan_matches d1 vlanId) (links k1) = Some v"
      by simp
    then have m: "vlan_matches d vlanId v"
      using e by (auto simp: find_Some_iff)
    show ?thesis
      using getVlanIfExist_no_fault [OF nf, of d1 vlanId] f m e
      by (simp add: getOrCreateVlanDevice_def)
  next
    case None
    obtain rb kb where goc: "getOrCreateDevice ?name (\<lambda>nm k.
                  case LinkAdd ?name (vlanParentIndex d) (uint vlanId) k of
                    (Inl err, k) \<Rightarrow> (Some (ErrAddVlanDevice ?name err), k)
                  | (Inr _, k) \<Rightarrow> (None, k)) ka = (rb, kb)"
      by (cases "getOrCreateDevice ?name (\<lambda>nm k.
                  case LinkAdd ?name (vlanParentIndex d) (uint vlanId) k of
                    (Inl err, k) \<Rightarrow> (Some (ErrAddVlanDevice ?name err), k)
                  | (Inr _, k) \<Rightarrow> (None, k)) ka")
    from first scan r None goc have rb: "rb = Inr v"
      by (cases rb) (auto simp: getOrCreateVlanDevice_def Let_def split: prod.splits sum.splits)
    from first scan r None goc rb obtain u
      where up: "LinkSetUp v kb = (Inr u, k1)" and d1: "d1 = d\<lparr>DeviceIndex := l_Index v\<rparr>"
      by (auto simp: getOrCreateVlanDevice_def Let_def split: prod.splits sum.splits)
    from LinkSetUp_Inr [OF up] have ex: "list_ex (\<lambda>x. l_Index x = l_Index v) (links kb)"
      and lk1: "links k1 = map (set_up (l_Index v)) (links kb)"
      by simp_all
    have nomatch: "find (vlan_matches d vlanId) (links k) = None"
      using None o1 by simp
    from getOrCreate_vlan_Inr [OF goc [unfolded rb]] lka
    consider (found) "find (\<lambda>x. l_Name x = ?name) (links k) = Some v" "links kb = links k"
      | (created) "v = new_vlan ?name (vlanParentIndex d) (uint vlanId) (links k)"
          "links kb = links k @ [v]"
      by auto
    then show ?thesis
    proof cases
      case found
      from found(1) have vin: "v \<in> set (links k)"
        by (auto simp: find_Some_iff)
      with nomatch have nm: "\<not> vlan_matches d vlanId v"
        by (auto simp: find_None_iff)
      have f1: "find (vlan_matches d1 vlanId) (links k1) = None"
        using nomatch found(2) lk1 d1 by (auto simp: find_None_iff vlan_matches_def set_up_def)
      have f2: "find (\<lambda>x. l_Name x = ?name) (links k1) = Some (set_up (l_Index v) v)"
        using found lk1 by (simp add: find_map_inv set_up_Name)
      have ex1: "list_ex (\<lambda>x. l_Index x = l_Index v) (links k1)"
        using ex lk1 by (simp add: list_ex_set_up)
      have nm1: "VlanNamePrefix d1 = VlanNamePrefix d" "vlanParentIndex d1 = vlanParentIndex d"
        using d1 by simp_all
      show ?thesis
        using getVlanIfExist_no_fault [OF nf, of d1 vlanId] f1 f2 nm nf ex1 nm1 d1 lk1
        by (simp add: getOrCreateVlanDevice_def getOrCreateDevice_def LinkByName_def
            LinkSetUp_def syscall_cases Let_def set_up_Index set_up_idem)
    next
      case created
      have m: "vlan_matches d vlanId v"
        using created(1) by (simp add: vlan_matches_def new_vlan_def)
      have "find (vlan_matches d vlanId) (links kb) = Some v"
        using nomatch created(2) m by (simp add: find_append_None)
      then have f: "find (vlan_matches d1 vlanId) (links k1) = Some (set_up (l_Index v) v)"
        using lk1 d1 by (simp add: find_matches_set_up)
      show ?thesis
        using getVlanIfExist_no_fault [OF nf, of d1 vlanId] f m d1
        by (simp add: getOrCreateVlanDevice_def set_up_Index)
    qed
  qed
qed

lemmas vlan_eval_defs = getOrCreateVlanDevice_def getVlanIfExist_def getOrCreateDevice_def
  LinkList_def LinkByName_def LinkByIndex_def LinkAdd_def LinkSetUp_def syscall_cases
  new_vlan_def fresh_index_def set_up_def decimal.simps Let_def

theorem getOrCreateVlanDevice_twice_witness:
  "getOrCreateVlanDevice (ex_driver\<lparr>vlanParentIndex := 2\<rparr>) 7 (ex_links_kernel [ex_eth1]) =
     (Inr (new_vlan ''vlan7'' 2 7 [ex_eth1]),
      ex_driver\<lparr>vlanParentIndex := 2, DeviceIndex := 3\<rparr>,
      \<lparr>links = [ex_eth1, (new_vlan ''vlan7'' 2 7 [ex_eth1])\<lparr>l_up := True\<rparr>], addrs = [], routes = [],
       trace = [CLinkList, CLinkByName ''vlan7'', CLinkAdd ''vlan7'' 2 7, CLinkByName ''vlan7'',
                CLinkSetUp 3],
       faults = []\<rparr>) \<and>
   (\<exists>v2 k2. getOrCreateVlanDevice (ex_driver\<lparr>vlanParentIndex := 2, DeviceIndex := 3\<rparr>) 7
        \<lparr>links = [ex_eth1, (new_vlan ''vlan7'' 2 7 [ex_eth1])\<lparr>l_up := True\<rparr>], addrs = [],
         routes = [],
         trace = [CLinkList, CLinkByName ''vlan7'', CLinkAdd ''vlan7'' 2 7, CLinkByName ''vlan7'',
                  CLinkSetUp 3],
         faults = []\<rparr> =
        (Inr v2, ex_driver\<lparr>vlanParentIndex := 2, DeviceIndex := 3\<rparr>, k2) \<and>
      l_Index v2 = 3 \<and>
      links k2 = [ex_eth1, (new_vlan ''vlan7'' 2 7 [ex_eth1])\<lparr>l_up := True\<rparr>] \<and>
      trace k2 = [CLinkList, CLinkByName ''vlan7'', CLinkAdd ''vlan7'' 2 7, CLinkByName ''vlan7'',
                  CLinkSetUp 3, CLinkList])"
proof -
  have first: "getOrCreateVlanDevice (ex_driver\<lparr>vlanParentIndex := 2\<rparr>) 7 (ex_links_kernel [ex_eth1]) =
     (Inr (new_vlan ''vlan7'' 2 7 [ex_eth1]),
      ex_driver\<lparr>vlanParentIndex := 2, DeviceIndex := 3\<rparr>,
      \<lparr>links = [ex_eth1, (new_vlan ''vlan7'' 2 7 [ex_eth1])\<lparr>l_up := True\<rparr>], addrs = [], routes = [],
       trace = [CLinkList, CLinkByName ''vlan7'', CLinkAdd ''vlan7'' 2 7, CLinkByName ''vlan7'',
                CLinkSetUp 3],
       faults = []\<rparr>)"
    by (simp add: vlan_eval_defs ex_kernel_defs)
  have m: "vlan_matches (ex_driver\<lparr>vlanParentIndex := 2\<rparr>) 7 (new_vlan ''vlan7'' 2 7 [ex_eth1])"
    by (simp add: vlan_matches_def new_vlan_def)
  have i: "l_Index (new_vlan ''vlan7'' 2 7 [ex_eth1]) = 3"
    by (simp add: new_vlan_def fresh_index_def ex_eth1_def)
  from getOrCreateVlanDevice_twice [OF first] m i first show ?thesis
    by auto
qed

text \<open>
  C4 as stated fails where the interface named after the tag exists and is a vlan link of
  another parent: both calls adopt it by name (index 6), no interface is created, but the
  second call's discovery scan finds no match, and the interface is looked up by name and
  brought up again.
\<close>

theorem getOrCreateVlanDevice_twice_counterexample:
  "getOrCreateVlanDevice (ex_driver\<lparr>vlanParentIndex := 2\<rparr>) 7
       (ex_links_kernel [ex_eth1, ex_vlan7_other]) =
     (Inr ex_vlan7_other, ex_driver\<lparr>vlanParentIndex := 2, DeviceIndex := 6\<rparr>,
      (ex_links_kernel [ex_eth1, ex_vlan7_other])
        \<lparr>trace := [CLinkList, CLinkByName ''vlan7'', CLinkSetUp 6]\<rparr>) \<and>
   fst (getVlanIfExist (ex_driver\<lparr>vlanParentIndex := 2, DeviceIndex := 6\<rparr>) 7
         ((ex_links_kernel [ex_eth1, ex_vlan7_other])
            \<lparr>trace := [CLinkList, CLinkByName ''vlan7'', CLinkSetUp 6]\<rparr>)) = Inr None \<and>
   getOrCreateVlanDevice (ex_driver\<lparr>vlanParentIndex := 2, DeviceIndex := 6\<rparr>) 7
       ((ex_links_kernel [ex_eth1, ex_vlan7_other])
          \<lparr>trace := [CLinkList, CLinkByName ''vlan7'', CLinkSetUp 6]\<rparr>) =
     (Inr ex_vlan7_other, ex_driver\<lparr>vlanParentIndex := 2, DeviceIndex := 6\<rparr>,
      (ex_links_kernel [ex_eth1, ex_vlan7_other])
        \<lparr>trace := [CLinkList, CLinkByName ''vlan7'', CLinkSetUp 6,
                   CLinkList, CLinkByName ''vlan7'', CLinkSetUp 6]\<rparr>)"
  by (simp add: vlan_eval_defs ex_kernel_defs)

section \<open>Bridge provisioning for a VLAN\<close>

text \<open>
  C5, as the code has it. Take a non-zero tag and no forced failure, and let the
  sub-interface be the one \<open>getOrCreateVlanDevice\<close> obtains without creating: the first
  vlan link with that tag on the driver's parent or, when the scan finds none, the
  interface that carries the derived name. If it is a vlan link whose master is a bridge,
  \<open>CreateBridgeAndVlanDevice\<close> returns that bridge's name; no bridge is created and
  nothing is enslaved. When the scan found the sub-interface, the only calls are the
  interface listing and the lookup of the master, and the kernel tables are unchanged.
  When the sub-interface was adopted by its name, it is brought up (one \<open>LinkSetUp\<close>
  on it, after the lookup by name) before the master is looked up.
\<close>

theorem CreateBridgeAndVlanDevice_reuses_master:
  assumes "vlanId \<noteq> 0" and "faults k = []"
    and "(case find (vlan_matches d vlanId) (links k) of
            Some x \<Rightarrow> Some x
          | None \<Rightarrow> find (\<lambda>l. l_Name l = VlanNamePrefix d @ decimal (unat vlanId)) (links k)) =
         Some v"
    and "l_type v = ''vlan''"
    and "0 < l_MasterIndex v"
    and "find (\<lambda>l. l_Index l = l_MasterIndex v) (links k) = Some m"
    and "l_type m = ''bridge''"
  shows "CreateBridgeAndVlanDevice d vlanId k =
     (Inr (l_Name m), d\<lparr>DeviceIndex := l_Index v\<rparr>,
      (if find (vlan_matches d vlanId) (links k) = None
       then k\<lparr>links := map (set_up (l_Index v)) (links k),
              trace := trace k @
                [CLinkList, CLinkByName (VlanNamePrefix d @ decimal (unat vlanId)),
                 CLinkSetUp (l_Index v), CLinkByIndex (l_MasterIndex v)]\<rparr>
       else k\<lparr>trace := trace k @ [CLinkList, CLinkByIndex (l_MasterIndex v)]\<rparr>))"
proof (cases "find (vlan_matches d vlanId) (links k)")
  case (Some x)
  with assms(3) have f: "find (vlan_matches d vlanId) (links k) = Some v"
    by simp
  show ?thesis
    using assms(1,2,4-7) f
    by (simp add: CreateBridgeAndVlanDevice_def getOrCreateVlanDevice_def getVlanIfExist_def
        LinkList_def getVlanMaster_def LinkByIndex_def syscall_cases scanVlan_find)
next
  case None
  let ?name = "VlanNamePrefix d @ decimal (unat vlanId)"
  from None assms(3) have byname: "find (\<lambda>l. l_Name l = ?name) (links k) = Some v"
    by simp
  then have "v \<in> set (links k)"
    by (auto simp: find_Some_iff)
  then have ex: "list_ex (\<lambda>x. l_Index x = l_Index v) (links k)"
    by (auto simp: list_ex_iff)
  have scan: "getVlanIfExist d vlanId k = (Inr None, k\<lparr>trace := trace k @ [CLinkList]\<rparr>)"
    using getVlanIfExist_no_fault [OF assms(2), of d vlanId] None by simp
  have goc: "getOrCreateVlanDevice d vlanId k =
      (Inr v, d\<lparr>DeviceIndex := l_Index v\<rparr>,
       k\<lparr>links := map (set_up (l_Index v)) (links k),
         trace := trace k @ [CLinkList, CLinkByName ?name, CLinkSetUp (l_Index v)]\<rparr>)"
    using scan byname ex assms(2)
    by (simp add: getOrCreateVlanDevice_def getOrCreateDevice_def LinkByName_def LinkSetUp_def
        syscall_cases Let_def)
  have "find (\<lambda>l. l_Index l = l_MasterIndex v) (map (set_up (l_Index v)) (links k)) =
      Some (set_up (l_Index v) m)"
    using assms(6) by (simp add: find_map_inv set_up_Index)
  moreover have "l_type (set_up (l_Index v) m) = ''bridge''" "l_Name (set_up (l_Index v) m) = l_Name m"
    using assms(7) by (simp_all add: set_up_def)
  ultimately have gm: "getVlanMaster v (k\<lparr>links := map (set_up (l_Index v)) (links k),
         trace := trace k @ [CLinkList, CLinkByName ?name, CLinkSetUp (l_Index v)]\<rparr>) =
      (Inr (Some (set_up (l_Index v) m)),
       k\<lparr>links := map (set_up (l_Index v)) (links k),
         trace := trace k @ [CLinkList, CLinkByName ?name, CLinkSetUp (l_Index v),
                             CLinkByIndex (l_MasterIndex v)]\<rparr>)"
    using assms(2,4,5) by (simp add: getVlanMaster_def LinkByIndex_def syscall_cases)
  show ?thesis
    using assms(1) None goc gm \<open>l_Name (set_up (l_Index v) m) = l_Name m\<close>
    by (simp add: CreateBridgeAndVlanDevice_def)
qed

theorem CreateBridgeAndVlanDevice_reuses_master_witness:
  "(7 :: 16 word) \<noteq> 0 \<and> faults (ex_links_kernel [ex_eth1, ex_vlan7, ex_docker7]) = [] \<and>
   find (vlan_matches (ex_driver\<lparr>vlanParentIndex := 2\<rparr>) 7)
     (links (ex_links_kernel [ex_eth1, ex_vlan7, ex_docker7])) = Some ex_vlan7 \<and>
   l_type ex_vlan7 = ''vlan'' \<and> 0 < l_MasterIndex ex_vlan7 \<and>
   find (\<lambda>l. l_Index l = l_MasterIndex ex_vlan7)
     (links (ex_links_kernel [ex_eth1, ex_vlan7, ex_docker7])) = Some ex_docker7 \<and>
   l_type ex_docker7 = ''bridge'' \<and>
   CreateBridgeAndVlanDevice (ex_driver\<lparr>vlanParentIndex := 2\<rparr>) 7
       (ex_links_kernel [ex_eth1, ex_vlan7, ex_docker7]) =
     (Inr ''docker7'', ex_driver\<lparr>vlanParentIndex := 2, DeviceIndex := 3\<rparr>,
      (ex_links_kernel [ex_eth1, ex_vlan7, ex_docker7])\<lparr>trace := [CLinkList, CLinkByIndex 4]\<rparr>) \<and>
   find (vlan_matches (ex_driver\<lparr>vlanParentIndex := 2\<rparr>) 7)
     (links (ex_links_kernel [ex_eth1, ex_vlan7_adopted, ex_docker7])) = None \<and>
   find (\<lambda>l. l_Name l = ''vlan7'')
     (links (ex_links_kernel [ex_eth1, ex_vlan7_adopted, ex_docker7])) = Some ex_vlan7_adopted \<and>
   l_type ex_vlan7_adopted = ''vlan'' \<and> 0 < l_MasterIndex ex_vlan7_adopted \<and>
   fst (CreateBridgeAndVlanDevice (ex_driver\<lparr>vlanParentIndex := 2\<rparr>) 7
       (ex_links_kernel [ex_eth1, ex_vlan7_adopted, ex_docker7])) = Inr ''docker7'' \<and>
   trace (snd (snd (CreateBridgeAndVlanDevice (ex_driver\<lparr>vlanParentIndex := 2\<rparr>) 7
       (ex_links_kernel [ex_eth1, ex_vlan7_adopted, ex_docker7])))) =
     [CLinkList, CLinkByName ''vlan7'', CLinkSetUp 6, CLinkByIndex 4]"
proof -
  have a: "(7 :: 16 word) \<noteq> 0"
    by simp
  have b: "faults (ex_links_kernel [ex_eth1, ex_vlan7, ex_docker7]) = []"
    "faults (ex_links_kernel [ex_eth1, ex_vlan7_adopted, ex_docker7]) = []"
    by (simp_all add: ex_links_kernel_def)
  have c: "find (vlan_matches (ex_driver\<lparr>vlanParentIndex := 2\<rparr>) 7)
     (links (ex_links_kernel [ex_eth1, ex_vlan7, ex_docker7])) = Some ex_vlan7"
    by (simp add: vlan_matches_def ex_kernel_defs)
  have c': "(case find (vlan_matches (ex_driver\<lparr>vlanParentIndex := 2\<rparr>) 7)
       (links (ex_links_kernel [ex_eth1, ex_vlan7, ex_docker7])) of
         Some x \<Rightarrow> Some x
       | None \<Rightarrow> find (\<lambda>l. l_Name l = VlanNamePrefix (ex_driver\<lparr>vlanParentIndex := 2\<rparr>) @
                               decimal (unat (7 :: 16 word)))
           (links (ex_links_kernel [ex_eth1, ex_vlan7, ex_docker7]))) = Some ex_vlan7"
    using c by simp
  have d: "l_type ex_vlan7 = ''vlan''" "0 < l_MasterIndex ex_vlan7"
    by (simp_all add: ex_vlan7_def)
  have e: "find (\<lambda>l. l_Index l = l_MasterIndex ex_vlan7)
     (links (ex_links_kernel [ex_eth1, ex_vlan7, ex_docker7])) = Some ex_docker7"
    by (simp add: ex_kernel_defs)
  have f: "l_type ex_docker7 = ''bridge''"
    by (simp add: ex_docker7_def)
  have g: "find (vlan_matches (ex_driver\<lparr>vlanParentIndex := 2\<rparr>) 7)
     (links (ex_links_kernel [ex_eth1, ex_vlan7_adopted, ex_docker7])) = None"
    by (simp add: vlan_matches_def ex_kernel_defs)
  have n: "VlanNamePrefix (ex_driver\<lparr>vlanParentIndex := 2\<rparr>) @ decimal (unat (7 :: 16 word)) = ''vlan7''"
    by (simp add: ex_driver_def decimal.simps)
  have h: "find (\<lambda>l. l_Name l = ''vlan7'')
     (links (ex_links_kernel [ex_eth1, ex_vlan7_adopted, ex_docker7])) = Some ex_vlan7_adopted"
    by (simp add: ex_kernel_defs)
  have h': "(case find (vlan_matches (ex_driver\<lparr>vlanParentIndex := 2\<rparr>) 7)
       (links (ex_links_kernel [ex_eth1, ex_vlan7_adopted, ex_docker7])) of
         Some x \<Rightarrow> Some x
       | None \<Rightarrow> find (\<lambda>l. l_Name l = VlanNamePrefix (ex_driver\<lparr>vlanParentIndex := 2\<rparr>) @
                               decimal (unat (7 :: 16 word)))
           (links (ex_links_kernel [ex_eth1, ex_vlan7_adopted, ex_docker7]))) = Some ex_vlan7_adopted"
    using g h n by simp
  have i: "l_type ex_vlan7_adopted = ''vlan''" "0 < l_MasterIndex ex_vlan7_adopted"
    by (simp_all add: ex_vlan7_adopted_def)
  have j: "find (\<lambda>l. l_Index l = l_MasterIndex ex_vlan7_adopted)
     (links (ex_links_kernel [ex_eth1, ex_vlan7_adopted, ex_docker7])) = Some ex_docker7"
    by (simp add: ex_kernel_defs)
  from a b c d e f g h i
    CreateBridgeAndVlanDevice_reuses_master [OF a b(1) c' d e f]
    CreateBridgeAndVlanDevice_reuses_master [OF a b(2) h' i j f]
  show ?thesis
    unfolding n by (simp add: ex_kernel_defs)
qed

text \<open>
  C5 as stated fails where the scan finds no sub-interface for the tag on the driver's
  parent and an interface of the derived name exists (here vlan7, tag 7 on another
  parent, down, enslaved to the bridge docker7): the call returns the bridge's name
  without creating or enslaving anything, but it brings vlan7 up on the way.
\<close>

theorem CreateBridgeAndVlanDevice_brings_up_counterexample:
  "l_up ex_vlan7_adopted = False \<and>
   CreateBridgeAndVlanDevice (ex_driver\<lparr>vlanParentIndex := 2\<rparr>) 7
       (ex_links_kernel [ex_eth1, ex_vlan7_adopted, ex_docker7]) =
     (Inr ''docker7'', ex_driver\<lparr>vlanParentIndex := 2, DeviceIndex := 6\<rparr>,
      \<lparr>links = [ex_eth1, ex_vlan7_adopted\<lparr>l_up := True\<rparr>, ex_docker7], addrs = [], routes = [],
       trace = [CLinkList, CLinkByName ''vlan7'', CLinkSetUp 6, CLinkByIndex 4],
       faults = []\<rparr>)"
  by (simp add: CreateBridgeAndVlanDevice_def getVlanMaster_def vlan_eval_defs ex_kernel_defs)

section \<open>The address migration of Init\<close>

lemma addr_loop_success:
  "addr_loop d device bri n L k = (None, L', k') \<Longrightarrow>
   trace k' = trace k @ moves device bri (drop n (v_filteredAddr L)) \<and> v_rs L' = v_rs L \<and>
   (v_err L = None \<longrightarrow> v_err L' = None)"
proof (induction "length (v_filteredAddr L) - n" arbitrary: n L k)
  case 0
  then show ?case
    by (simp add: addr_loop.simps moves_def)
next
  case (Suc m)
  then have n: "n < length (v_filteredAddr L)"
    by simp
  obtain r1 k1 where del: "AddrDel device (v_filteredAddr L ! n) k = (r1, k1)"
    by (cases "AddrDel device (v_filteredAddr L ! n) k")
  define L1 where "L1 = L\<lparr>v_i := n, v_deferred := ReAddAddr # v_deferred L,
     v_filteredAddr := (v_filteredAddr L)[n := (v_filteredAddr L ! n)\<lparr>a_label := []\<rparr>],
     v_err := None\<rparr>"
  obtain r2 k2 where add: "AddrAdd bri ((v_filteredAddr L ! n)\<lparr>a_label := []\<rparr>) k1 = (r2, k2)"
    by (cases "AddrAdd bri ((v_filteredAddr L ! n)\<lparr>a_label := []\<rparr>) k1")
  from Suc.prems n del add have rec: "addr_loop d device bri (Suc n) L1 k2 = (None, L', k')"
    by (simp add: addr_loop.simps [of d device bri n L k] L1_def Let_def
        split: sum.splits if_splits)
  have m: "m = length (v_filteredAddr L1) - Suc n"
    using Suc.hyps(2) by (simp add: L1_def)
  from Suc.hyps(1) [OF m rec]
  have "trace k' = trace k2 @ moves device bri (drop (Suc n) (v_filteredAddr L1))"
    "v_rs L' = v_rs L1" "v_err L' = None"
    by (simp_all add: L1_def)
  moreover have "drop (Suc n) (v_filteredAddr L1) = drop (Suc n) (v_filteredAddr L)"
    by (simp add: L1_def)
  moreover have "drop n (v_filteredAddr L) = v_filteredAddr L ! n # drop (Suc n) (v_filteredAddr L)"
    using n by (simp add: Cons_nth_drop_Suc)
  ultimately show ?case
    using AddrDel_trace [OF del] AddrAdd_trace [OF add]
    by (simp add: moves_def L1_def)
qed

lemma route_loop_success:
  "route_loop bri rs L k = (None, L', k') \<Longrightarrow> v_err L = None \<Longrightarrow>
   trace k' = trace k @ map (\<lambda>r. CRouteAdd (newRoute bri r)) rs \<and> v_err L' = None"
proof (induction rs arbitrary: L k)
  case Nil
  then show ?case
    by simp
next
  case (Cons r rs)
  obtain x k1 where ra: "RouteAdd (newRoute bri r) k = (x, k1)"
    by (cases "RouteAdd (newRoute bri r) k")
  from Cons.prems ra have "route_loop bri rs (L\<lparr>v_err := None\<rparr>) k1 = (None, L', k')"
    by (simp split: sum.splits if_splits)
  from Cons.IH [OF this] RouteAdd_trace [OF ra] show ?case
    by simp
qed

lemma run_deferred_no_error: "v_err L = None \<Longrightarrow> run_deferred device L ds k = k"
proof (induction ds arbitrary: k)
  case Nil
  then show ?case
    by simp
next
  case (Cons x ds)
  then show ?case
    by (cases x) simp_all
qed

lemma migrate_body_success:
  assumes "migrate_body d device bri L k = (None, L', k')" and "v_err L = None"
  shows "trace k' = trace k @ moves device bri (v_filteredAddr L) @
           [CLinkSetMaster (l_Index device) (DefaultBridgeName d)] @
           map (\<lambda>r. CRouteAdd (newRoute bri r)) (v_rs L) \<and> v_err L' = None"
proof -
  obtain r1 L1 k1 where al: "addr_loop d device bri 0 L k = (r1, L1, k1)"
    by (cases "addr_loop d device bri 0 L k")
  with assms(1) have r1: "r1 = None"
    by (auto simp: migrate_body_def split: option.splits)
  obtain x k2 where sm: "LinkSetMaster device (DefaultBridgeName d) k1 = (x, k2)"
    by (cases "LinkSetMaster device (DefaultBridgeName d) k1")
  from assms(1) al r1 sm
  have rl: "route_loop bri (v_rs L1) (L1\<lparr>v_err := None\<rparr>) k2 = (None, L', k')"
    by (auto simp: migrate_body_def split: sum.splits)
  from addr_loop_success [OF al [unfolded r1]]
  have a: "trace k1 = trace k @ moves device bri (v_filteredAddr L)" "v_rs L1 = v_rs L"
    by simp_all
  from route_loop_success [OF rl] a LinkSetMaster_trace [OF sm] show ?thesis
    by simp
qed

text \<open>
  C3, as the code has it. A migration that succeeds issues its calls in this order: the
  bridge is obtained or created (one lookup by name, or lookup, creation and second
  lookup), the bridge is brought up, the device's routes are listed, each address in list
  order is deleted from the device and added with its label cleared to the bridge, the
  device is enslaved to the bridge, and each listed route is added again with the
  bridge's index. Bringing the bridge up is the second step, before the route snapshot;
  the last call is the last route (or the enslaving when there is no route).
\<close>

theorem migrate_call_order:
  assumes "migrate d device filteredAddr k = (None, k')"
    and "getOrCreateBridge (DefaultBridgeName d) (l_HardwareAddr device) k = (Inr bri, k1)"
  shows "(trace k1 = trace k @ [CLinkByName (DefaultBridgeName d)] \<or>
          trace k1 = trace k @ [CLinkByName (DefaultBridgeName d),
                                CCreateBridgeDevice (DefaultBridgeName d) (l_HardwareAddr device),
                                CLinkByName (DefaultBridgeName d)]) \<and>
         trace k' = trace k1 @
           [CLinkSetUp (l_Index bri), CRouteList (l_Index device)] @
           moves device bri filteredAddr @
           [CLinkSetMaster (l_Index device) (DefaultBridgeName d)] @
           map (\<lambda>r. CRouteAdd (newRoute bri r))
             (filter (\<lambda>r. r_LinkIndex r = l_Index device) (routes k))"
proof -
  note gb = assms(2)
  obtain k2 where up: "LinkSetUp bri k1 = (Inr (), k2)"
    using assms by (auto simp: migrate_def split: prod.splits sum.splits)
  obtain rs k3 where rl: "RouteList device k2 = (Inr rs, k3)"
    using assms up by (auto simp: migrate_def split: prod.splits sum.splits)
  define L where "L = \<lparr>v_err = None, v_i = 0, v_filteredAddr = filteredAddr, v_rs = rs,
    v_deferred = [ReAddRoutes]\<rparr>"
  obtain L' k4 where mb: "migrate_body d device bri L k3 = (None, L', k4)"
    using assms up rl by (auto simp: migrate_def L_def split: prod.splits sum.splits)
  from migrate_body_success [OF mb]
  have t4: "trace k4 = trace k3 @ moves device bri filteredAddr @
           [CLinkSetMaster (l_Index device) (DefaultBridgeName d)] @
           map (\<lambda>r. CRouteAdd (newRoute bri r)) rs" and e: "v_err L' = None"
    by (simp_all add: L_def)
  have k': "k' = k4"
    using assms up rl mb run_deferred_no_error [OF e] by (simp add: migrate_def L_def)
  have rs: "rs = filter (\<lambda>r. r_LinkIndex r = l_Index device) (routes k)"
    using RouteList_Inr [OF rl] LinkSetUp_routes [OF up] getOrCreateBridge_routes [OF gb]
    by simp
  from getOrCreateBridge_trace [OF gb] LinkSetUp_trace [OF up] RouteList_trace [OF rl] t4 k' rs
  show ?thesis
    by auto
qed

text \<open>
  On a configuration of bridge mode with the default bridge enabled, \<open>Init\<close> runs the
  migration whenever the device carries a non-loopback address.
\<close>

lemma Init_runs_migrate:
  assumes "\<not> MacVlanMode d" "\<not> IPVlanMode d" "\<not> PureMode d" "DisableDefaultBridge d \<noteq> Some True"
    and "LinkByName (Device d) k = (Inr device, k1)"
    and "AddrList device k1 = (Inr v4Addr, k2)"
    and "FilterLoopbackAddr v4Addr \<noteq> []"
  shows "fst (Init d k) =
           fst (migrate (d\<lparr>DeviceIndex := l_Index device,
                            vlanParentIndex := (if l_type device = ''vlan''
                                                then l_ParentIndex device else l_Index device)\<rparr>)
                  device (FilterLoopbackAddr v4Addr) k2) \<and>
         snd (snd (Init d k)) =
           snd (migrate (d\<lparr>DeviceIndex := l_Index device,
                            vlanParentIndex := (if l_type device = ''vlan''
                                                then l_ParentIndex device else l_Index device)\<rparr>)
                  device (FilterLoopbackAddr v4Addr) k2)"
  using assms
  by (simp add: Init_def init_bridge_def MacVlanMode_def IPVlanMode_def PureMode_def Let_def
      split: prod.splits)

lemmas init_eval_defs = Init_def init_bridge_def migrate_def migrate_body_def addr_loop.simps
  getOrCreateBridge_def getOrCreateDevice_def MacVlanMode_def IPVlanMode_def PureMode_def
  LinkByName_def AddrList_def CreateBridgeDevice_def LinkSetUp_def RouteList_def AddrDel_def
  AddrAdd_def LinkSetMaster_def RouteAdd_def syscall_cases FilterLoopbackAddr_def IsLoopback_def
  same_addr_def fresh_index_def set_up_def newRoute_def Let_def

theorem migrate_call_order_witness:
  "fst (migrate ex_driver ex_eth1 [ex_addr0, ex_addr1] (ex_kernel [])) = None \<and>
   fst (getOrCreateBridge (DefaultBridgeName ex_driver) (l_HardwareAddr ex_eth1) (ex_kernel [])) =
     Inr ex_docker \<and>
   trace (snd (migrate ex_driver ex_eth1 [ex_addr0, ex_addr1] (ex_kernel []))) =
     [CLinkByName ''docker'', CCreateBridgeDevice ''docker'' [], CLinkByName ''docker'',
      CLinkSetUp 3, CRouteList 2,
      CAddrDel 2 ex_addr0, CAddrAdd 3 (ex_addr0\<lparr>a_label := []\<rparr>),
      CAddrDel 2 ex_addr1, CAddrAdd 3 (ex_addr1\<lparr>a_label := []\<rparr>),
      CLinkSetMaster 2 ''docker'',
      CRouteAdd (newRoute ex_docker ex_route)]"
proof -
  have a: "fst (migrate ex_driver ex_eth1 [ex_addr0, ex_addr1] (ex_kernel [])) = None"
    by (simp add: init_eval_defs ex_kernel_defs)
  have b: "getOrCreateBridge (DefaultBridgeName ex_driver) (l_HardwareAddr ex_eth1) (ex_kernel []) =
     (Inr ex_docker,
      \<lparr>links = [ex_eth1, ex_docker], addrs = [(2, ex_addr0), (2, ex_addr1)], routes = [ex_route],
       trace = [CLinkByName ''docker'', CCreateBridgeDevice ''docker'' [], CLinkByName ''docker''],
       faults = []\<rparr>)"
    by (simp add: init_eval_defs ex_kernel_defs ex_docker_def)
  have a': "migrate ex_driver ex_eth1 [ex_addr0, ex_addr1] (ex_kernel []) =
      (None, snd (migrate ex_driver ex_eth1 [ex_addr0, ex_addr1] (ex_kernel [])))"
    using a by (simp add: prod_eq_iff)
  from migrate_call_order [OF a' b] a b show ?thesis
    by (simp add: moves_def ex_kernel_defs ex_docker_def)
qed

text \<open>
  C3 as stated fails: on the example host \<open>Init\<close> succeeds, and the bridge (index 3) is
  brought up as the sixth call, before the route snapshot and before any address is
  moved; the last call re-adds the route.
\<close>

theorem Init_bridge_up_not_last_counterexample:
  "fst (Init ex_driver (ex_kernel [])) = None \<and>
   trace (snd (snd (Init ex_driver (ex_kernel [])))) =
     [CLinkByName ''eth1'', CAddrList 2,
      CLinkByName ''docker'', CCreateBridgeDevice ''docker'' [], CLinkByName ''docker'',
      CLinkSetUp 3, CRouteList 2,
      CAddrDel 2 ex_addr0, CAddrAdd 3 (ex_addr0\<lparr>a_label := []\<rparr>),
      CAddrDel 2 ex_addr1, CAddrAdd 3 (ex_addr1\<lparr>a_label := []\<rparr>),
      CLinkSetMaster 2 ''docker'',
      CRouteAdd (ex_route\<lparr>r_LinkIndex := 3, r_Protocol := 0, r_Table := 0\<rparr>)]"
  by (simp add: init_eval_defs ex_kernel_defs)

text \<open>
  What the deferred closures do once the variable \<open>err\<close> is set: every closure of the
  address loop re-adds the one address the loop variable points at when the function
  returns, and then the snapshotted routes are added again.
\<close>

lemma readd_routes_trace: "trace (readd_routes rs k) = trace k @ map CRouteAdd rs"
proof (induction rs arbitrary: k)
  case Nil
  then show ?case
    by simp
next
  case (Cons r rs)
  obtain x k1 where ra: "RouteAdd r k = (x, k1)"
    by (cases "RouteAdd r k")
  from Cons.IH [of k1] RouteAdd_trace [OF ra] ra show ?case
    by simp
qed

lemma run_deferred_same_address:
  "v_err L \<noteq> None \<Longrightarrow>
   trace (run_deferred device L (replicate m ReAddAddr @ [ReAddRoutes]) k) =
     trace k @ replicate m (CAddrAdd (l_Index device) (v_filteredAddr L ! v_i L)) @
     map CRouteAdd (v_rs L)"
proof (induction m arbitrary: k)
  case 0
  then show ?case
    by (simp add: readd_routes_trace)
next
  case (Suc m)
  obtain x k1 where aa: "AddrAdd device (v_filteredAddr L ! v_i L) k = (x, k1)"
    by (cases "AddrAdd device (v_filteredAddr L ! v_i L) k")
  from Suc.IH [OF Suc.prems, of k1] AddrAdd_trace [OF aa] aa Suc.prems show ?case
    by (simp add: replicate_app_Cons_same)
qed

text \<open>
  With a single address on the device the loop variable still points at it when the
  closure runs, and the rollback puts that address back.
\<close>

lemma Init_rollback_single_address:
  "fst (Init ex_driver ((ex_kernel (replicate 9 None @ [Some ''operation not permitted'']))
          \<lparr>addrs := [(2, ex_addr0)]\<rparr>)) =
     Some (ErrSetMaster ''eth1'' ''docker'' ''operation not permitted'') \<and>
   drop 10 (trace (snd (snd (Init ex_driver
       ((ex_kernel (replicate 9 None @ [Some ''operation not permitted'']))
          \<lparr>addrs := [(2, ex_addr0)]\<rparr>))))) =
     [CAddrAdd 2 (ex_addr0\<lparr>a_label := []\<rparr>), CRouteAdd ex_route]"
  by (simp add: init_eval_defs ex_kernel_defs numeral_eq_Suc)

text \<open>
  C1, evaluated where it fails. The device carries two addresses; everything succeeds up
  to the enslaving of the device, which is made to fail (the twelfth call). \<open>Init\<close>
  returns the error of that step, and the deferred closures then run: both closures of
  the address loop read the loop variable as the loop left it and re-add the second
  address (the second attempt meets "file exists", which is dropped), then the route is
  re-added. The first address is never put back: the device is left with the second
  address only, while both addresses stay on the bridge.
\<close>

theorem Init_rollback_readds_last_address_only:
  "fst (Init ex_driver (ex_kernel (replicate 11 None @ [Some ''operation not permitted'']))) =
     Some (ErrSetMaster ''eth1'' ''docker'' ''operation not permitted'') \<and>
   trace (snd (snd (Init ex_driver
       (ex_kernel (replicate 11 None @ [Some ''operation not permitted'']))))) =
     [CLinkByName ''eth1'', CAddrList 2,
      CLinkByName ''docker'', CCreateBridgeDevice ''docker'' [], CLinkByName ''docker'',
      CLinkSetUp 3, CRouteList 2,
      CAddrDel 2 ex_addr0, CAddrAdd 3 (ex_addr0\<lparr>a_label := []\<rparr>),
      CAddrDel 2 ex_addr1, CAddrAdd 3 (ex_addr1\<lparr>a_label := []\<rparr>),
      CLinkSetMaster 2 ''docker'',
      CAddrAdd 2 (ex_addr1\<lparr>a_label := []\<rparr>), CAddrAdd 2 (ex_addr1\<lparr>a_label := []\<rparr>),
      CRouteAdd ex_route] \<and>
   addrs (snd (snd (Init ex_driver
       (ex_kernel (replicate 11 None @ [Some ''operation not permitted'']))))) =
     [(3, ex_addr0\<lparr>a_label := []\<rparr>), (3, ex_addr1\<lparr>a_label := []\<rparr>),
      (2, ex_addr1\<lparr>a_label := []\<rparr>)]"
  by (simp add: init_eval_defs ex_kernel_defs numeral_eq_Suc)

end
